theory Spec2Isabelle
  imports Complex_Main
begin

section \<open>Client state layer (src/lib/stores/mapStore.ts)\<close>

subsection \<open>Entity types (src/lib/types/index.ts)\<close>

text \<open>
  The interfaces \<open>PinContent\<close>, \<open>Pin\<close>, \<open>TagDefinition\<close>, \<open>RegionBoundary\<close> and
  \<open>MapSettings\<close> as records. The field \<open>id\<close> of a pin and of a tag is written
  \<open>pinId\<close> and \<open>tagId\<close>, the fields \<open>name\<close> and \<open>color\<close> of a tag \<open>tagName\<close> and
  \<open>tagColor\<close>, the \<open>name\<close> of a boundary \<open>boundaryName\<close>, the \<open>type\<close>, \<open>value\<close>
  and \<open>title\<close> of a content block \<open>blockType\<close>, \<open>blockValue\<close> and \<open>blockTitle\<close>.
  JavaScript numbers are only stored, compared and tested against zero here, so a
  number is a rational.
\<close>

datatype ContentType = TextBlock | ImageBlock | VideoBlock | PdfBlock

record PinContent =
  blockType :: ContentType
  blockValue :: string
  blockTitle :: "string option"

record Pin =
  pinId :: string
  title :: string
  position :: "rat \<times> rat"
  mainTag :: string
  supportingTags :: "string list"
  content :: "PinContent list"
  createdAt :: string
  updatedAt :: string

record TagDefinition =
  tagId :: string
  tagName :: string
  tagColor :: string

record RegionBoundary =
  boundaryName :: string
  coordinates :: "(rat \<times> rat) list"
  minZoom :: rat
  maxZoom :: rat

record MapSettings =
  defaultCenter :: "rat \<times> rat"
  defaultZoom :: rat
  allowedContentTypes :: "string list"
  contentDisplayOrder :: "string list"
  enabledFilters :: "string list"
  enabledSorting :: "string list"

subsection \<open>The stores\<close>

text \<open>
  Every writable store of the module is one field of the record \<open>store\<close>: the four
  loading flags, the four error states (\<open>None\<close> is \<open>null\<close>), the four persisted
  mirrors and the session-only stores. A persisted store also writes each new value
  to \<open>localStorage\<close>, inside a \<open>try\<close> of its own; nothing here reads that copy, and
  it is not part of the record.
\<close>

datatype ViewMode = MapView | ListView

record store =
  isLoadingPins :: bool
  isLoadingTags :: bool
  isLoadingBoundary :: bool
  isLoadingSettings :: bool
  pinsError :: "string option"
  tagsError :: "string option"
  boundaryError :: "string option"
  settingsError :: "string option"
  pins :: "Pin list"
  regionBoundary :: "RegionBoundary option"
  mapSettings :: MapSettings
  tags :: "TagDefinition list"
  isAdminMode :: bool
  selectedPinId :: "string option"
  filterTags :: "string list"
  viewMode :: ViewMode

subsection \<open>Derived projections\<close>

text \<open>
  \<open>Array.prototype.includes\<close>, \<open>some\<close> and \<open>filter\<close> on string arrays and pin arrays:
  membership, existence of an element and \<open>filter\<close>, which builds a new list in the
  order of the old one.
\<close>

definition array_includes :: "'a list \<Rightarrow> 'a \<Rightarrow> bool" where
  "array_includes xs x = (x \<in> set xs)"

definition array_some :: "'a list \<Rightarrow> ('a \<Rightarrow> bool) \<Rightarrow> bool" where
  "array_some xs P = list_ex P xs"

text \<open>The callback of the derived store \<open>filteredPins\<close>, on the values of its two inputs.\<close>

definition filteredPins :: "Pin list \<Rightarrow> string list \<Rightarrow> Pin list" where
  "filteredPins ps fs =
     (if length fs = 0 then ps
      else filter (\<lambda>pin. array_includes fs (mainTag pin) \<or>
                          array_some (supportingTags pin) (\<lambda>tag. array_includes fs tag)) ps)"

text \<open>
  \<open>getFilteredPins\<close> reads the two stores with \<open>get\<close> and writes none: it returns its
  result together with the state it leaves.
\<close>

definition getFilteredPins :: "store \<Rightarrow> Pin list \<times> store" where
  "getFilteredPins s =
     (let allPins = pins s; selectedTags = filterTags s in
      if length selectedTags = 0 then (allPins, s)
      else (filter (\<lambda>pin. array_includes selectedTags (mainTag pin) \<or>
                            array_some (supportingTags pin) (\<lambda>tag. array_includes selectedTags tag)) allPins, s))"

text \<open>The derived store \<open>selectedPin\<close>.\<close>

definition selectedPin :: "Pin list \<Rightarrow> string option \<Rightarrow> Pin option" where
  "selectedPin ps sel =
     (case sel of
        None \<Rightarrow> None
      | Some i \<Rightarrow> if i = [] then None else List.find (\<lambda>pin. pinId pin = i) ps)"

subsection \<open>Thrown values and remote calls\<close>

text \<open>
  A thrown value is an \<open>Error\<close> object with its message, or any other value with
  the string \<open>String(error)\<close> gives for it. \<open>toErrorMessage\<close> is the function of
  src/lib/types/index.ts.
\<close>

datatype thrown = ErrorObj string | Thrown string

definition toErrorMessage :: "thrown \<Rightarrow> string" where
  "toErrorMessage error =
     (case error of
        ErrorObj message \<Rightarrow> message
      | Thrown str \<Rightarrow> if str = [] then ''Unknown error occurred'' else str)"

text \<open>
  The remote call is the environment of the store: every operation takes the
  settled outcome of its \<open>fetch\<close> as an argument. The promise is rejected with a
  thrown value (a transport failure), or resolved with a response that has a status,
  a status text and the outcome of \<open>response.json()\<close>: a thrown value when the body
  cannot be read, the payload otherwise. \<open>response.ok\<close> is a status from 200 to 299.
\<close>

record 'a response =
  status :: nat
  statusText :: string
  json :: "thrown + 'a"

datatype 'a fetched = Rejected thrown | Resolved "'a response"

definition ok :: "'a response \<Rightarrow> bool" where
  "ok r = (200 \<le> status r \<and> status r \<le> 299)"

text \<open>
  A computation on the stores returns a value or throws, and leaves a state either
  way. \<open>try_catch_finally\<close> is the statement \<open>try { body } catch (error) { handler }
  finally { fin }\<close>: the writes of the body before a throw stay, the handler runs on
  a thrown value only, and the final block runs on every path without changing the
  completion.
\<close>

type_synonym 'r comp = "store \<Rightarrow> (thrown + 'r) \<times> store"

definition try_catch_finally ::
  "'r comp \<Rightarrow> (thrown \<Rightarrow> 'r comp) \<Rightarrow> (store \<Rightarrow> store) \<Rightarrow> 'r comp" where
  "try_catch_finally body handler fin s =
     (case body s of
        (Inr v, s1) \<Rightarrow> (Inr v, fin s1)
      | (Inl error, s1) \<Rightarrow> (case handler error s1 of (r, s2) \<Rightarrow> (r, fin s2)))"

text \<open>
  Each collection has the same three pieces in all its operations: the two writes
  before the \<open>try\<close> (the loading flag, then the error), the \<open>catch\<close> clause that
  stores the message and returns the operation's failure value, and the \<open>finally\<close>
  clause.
\<close>

definition pins_begin :: "store \<Rightarrow> store" where
  "pins_begin s = (s\<lparr>isLoadingPins := True\<rparr>)\<lparr>pinsError := None\<rparr>"

definition pins_catch :: "'r \<Rightarrow> thrown \<Rightarrow> 'r comp" where
  "pins_catch r error s = (Inr r, s\<lparr>pinsError := Some (toErrorMessage error)\<rparr>)"

definition pins_finally :: "store \<Rightarrow> store" where
  "pins_finally s = s\<lparr>isLoadingPins := False\<rparr>"

definition tags_begin :: "store \<Rightarrow> store" where
  "tags_begin s = (s\<lparr>isLoadingTags := True\<rparr>)\<lparr>tagsError := None\<rparr>"

definition tags_catch :: "'r \<Rightarrow> thrown \<Rightarrow> 'r comp" where
  "tags_catch r error s = (Inr r, s\<lparr>tagsError := Some (toErrorMessage error)\<rparr>)"

definition tags_finally :: "store \<Rightarrow> store" where
  "tags_finally s = s\<lparr>isLoadingTags := False\<rparr>"

definition boundary_begin :: "store \<Rightarrow> store" where
  "boundary_begin s = (s\<lparr>isLoadingBoundary := True\<rparr>)\<lparr>boundaryError := None\<rparr>"

definition boundary_catch :: "'r \<Rightarrow> thrown \<Rightarrow> 'r comp" where
  "boundary_catch r error s = (Inr r, s\<lparr>boundaryError := Some (toErrorMessage error)\<rparr>)"

definition boundary_finally :: "store \<Rightarrow> store" where
  "boundary_finally s = s\<lparr>isLoadingBoundary := False\<rparr>"

definition settings_begin :: "store \<Rightarrow> store" where
  "settings_begin s = (s\<lparr>isLoadingSettings := True\<rparr>)\<lparr>settingsError := None\<rparr>"

definition settings_catch :: "'r \<Rightarrow> thrown \<Rightarrow> 'r comp" where
  "settings_catch r error s = (Inr r, s\<lparr>settingsError := Some (toErrorMessage error)\<rparr>)"

definition settings_finally :: "store \<Rightarrow> store" where
  "settings_finally s = s\<lparr>isLoadingSettings := False\<rparr>"

subsection \<open>The load operations\<close>

text \<open>
  A load is the guard on \<open>browser\<close>, the two writes, and the \<open>try\<close> statement
  around the awaited \<open>fetch\<close>. The part after the \<open>await\<close> is named \<open>_settle\<close>: it
  runs when the outcome of the call arrives.
\<close>

definition loadPins_try :: "Pin list fetched \<Rightarrow> unit comp" where
  "loadPins_try f s =
     (case f of
        Rejected error \<Rightarrow> (Inl error, s)
      | Resolved response \<Rightarrow>
          if \<not> ok response
          then (Inl (ErrorObj (''Failed to load pins: '' @ statusText response)), s)
          else (case json response of
                  Inl error \<Rightarrow> (Inl error, s)
                | Inr data \<Rightarrow> (Inr (), s\<lparr>pins := data\<rparr>)))"

definition loadPins_settle :: "Pin list fetched \<Rightarrow> unit comp" where
  "loadPins_settle f = try_catch_finally (loadPins_try f) (pins_catch ()) pins_finally"

definition loadPins :: "bool \<Rightarrow> Pin list fetched \<Rightarrow> unit comp" where
  "loadPins browser f s =
     (if \<not> browser then (Inr (), s) else loadPins_settle f (pins_begin s))"

definition loadTags_try :: "TagDefinition list fetched \<Rightarrow> unit comp" where
  "loadTags_try f s =
     (case f of
        Rejected error \<Rightarrow> (Inl error, s)
      | Resolved response \<Rightarrow>
          if \<not> ok response
          then (Inl (ErrorObj (''Failed to load tags: '' @ statusText response)), s)
          else (case json response of
                  Inl error \<Rightarrow> (Inl error, s)
                | Inr data \<Rightarrow> (Inr (), s\<lparr>tags := data\<rparr>)))"

definition loadTags_settle :: "TagDefinition list fetched \<Rightarrow> unit comp" where
  "loadTags_settle f = try_catch_finally (loadTags_try f) (tags_catch ()) tags_finally"

definition loadTags :: "bool \<Rightarrow> TagDefinition list fetched \<Rightarrow> unit comp" where
  "loadTags browser f s =
     (if \<not> browser then (Inr (), s) else loadTags_settle f (tags_begin s))"

text \<open>
  The boundary store holds a boundary or \<open>null\<close>, and so does the payload of the
  boundary endpoint. A 404 answer returns from inside the \<open>try\<close> block after
  setting the store to \<open>null\<close>.
\<close>

definition loadRegionBoundary_try :: "RegionBoundary option fetched \<Rightarrow> unit comp" where
  "loadRegionBoundary_try f s =
     (case f of
        Rejected error \<Rightarrow> (Inl error, s)
      | Resolved response \<Rightarrow>
          if status response = 404 then (Inr (), s\<lparr>regionBoundary := None\<rparr>)
          else if \<not> ok response
          then (Inl (ErrorObj (''Failed to load region boundary: '' @ statusText response)), s)
          else (case json response of
                  Inl error \<Rightarrow> (Inl error, s)
                | Inr data \<Rightarrow> (Inr (), s\<lparr>regionBoundary := data\<rparr>)))"

definition loadRegionBoundary_settle :: "RegionBoundary option fetched \<Rightarrow> unit comp" where
  "loadRegionBoundary_settle f =
     try_catch_finally (loadRegionBoundary_try f) (boundary_catch ()) boundary_finally"

definition loadRegionBoundary :: "bool \<Rightarrow> RegionBoundary option fetched \<Rightarrow> unit comp" where
  "loadRegionBoundary browser f s =
     (if \<not> browser then (Inr (), s) else loadRegionBoundary_settle f (boundary_begin s))"

definition loadMapSettings_try :: "MapSettings fetched \<Rightarrow> unit comp" where
  "loadMapSettings_try f s =
     (case f of
        Rejected error \<Rightarrow> (Inl error, s)
      | Resolved response \<Rightarrow>
          if status response = 404 then (Inr (), s)
          else if \<not> ok response
          then (Inl (ErrorObj (''Failed to load map settings: '' @ statusText response)), s)
          else (case json response of
                  Inl error \<Rightarrow> (Inl error, s)
                | Inr data \<Rightarrow> (Inr (), s\<lparr>mapSettings := data\<rparr>)))"

definition loadMapSettings_settle :: "MapSettings fetched \<Rightarrow> unit comp" where
  "loadMapSettings_settle f =
     try_catch_finally (loadMapSettings_try f) (settings_catch ()) settings_finally"

definition loadMapSettings :: "bool \<Rightarrow> MapSettings fetched \<Rightarrow> unit comp" where
  "loadMapSettings browser f s =
     (if \<not> browser then (Inr (), s) else loadMapSettings_settle f (settings_begin s))"

subsection \<open>Load-all\<close>

text \<open>
  \<open>loadAllData\<close> calls the four loads in turn and awaits \<open>Promise.all\<close> of their
  promises. Each call runs up to its \<open>await\<close>, so the eight writes before the four
  \<open>try\<close> statements happen first, in the order of the calls; the four remaining
  parts then run one at a time in the order \<open>order\<close> in which the answers arrive, a
  permutation of the four collections. \<open>Promise.all\<close> is rejected with the first
  rejection among its promises and fulfilled when there is none.
\<close>

datatype collection = PinsColl | TagsColl | BoundaryColl | SettingsColl

definition settle ::
  "collection \<Rightarrow> Pin list fetched \<Rightarrow> TagDefinition list fetched \<Rightarrow>
   RegionBoundary option fetched \<Rightarrow> MapSettings fetched \<Rightarrow> unit comp" where
  "settle c fp ft fb fs =
     (case c of
        PinsColl \<Rightarrow> loadPins_settle fp
      | TagsColl \<Rightarrow> loadTags_settle ft
      | BoundaryColl \<Rightarrow> loadRegionBoundary_settle fb
      | SettingsColl \<Rightarrow> loadMapSettings_settle fs)"

fun settle_in_order ::
  "collection list \<Rightarrow> Pin list fetched \<Rightarrow> TagDefinition list fetched \<Rightarrow>
   RegionBoundary option fetched \<Rightarrow> MapSettings fetched \<Rightarrow>
   store \<Rightarrow> (thrown + unit) list \<times> store" where
  "settle_in_order [] fp ft fb fs s = ([], s)"
| "settle_in_order (c # cs) fp ft fb fs s =
     (case settle c fp ft fb fs s of
        (r, s1) \<Rightarrow> (case settle_in_order cs fp ft fb fs s1 of (rs, s2) \<Rightarrow> (r # rs, s2)))"

definition promise_all :: "(thrown + unit) list \<Rightarrow> thrown + unit" where
  "promise_all rs = (case List.find isl rs of Some (Inl error) \<Rightarrow> Inl error | _ \<Rightarrow> Inr ())"

definition loadAllData ::
  "bool \<Rightarrow> collection list \<Rightarrow> Pin list fetched \<Rightarrow> TagDefinition list fetched \<Rightarrow>
   RegionBoundary option fetched \<Rightarrow> MapSettings fetched \<Rightarrow> unit comp" where
  "loadAllData browser order fp ft fb fs s =
     (if \<not> browser then (Inr (), s)
      else (case settle_in_order order fp ft fb fs
                   (settings_begin (boundary_begin (tags_begin (pins_begin s)))) of
              (rs, s1) \<Rightarrow> (promise_all rs, s1)))"

subsection \<open>The mutation operations\<close>

text \<open>
  The payload of an endpoint that answers with one record is that record or
  \<open>null\<close> (\<open>None\<close>); the operations test it with \<open>!createdPin || !createdPin.id\<close>.
  The request an operation sends does not enter the state it leaves, so the pin
  data, the generated id and the update object are not arguments of the model; the
  id and the name are, where a guard or the splice reads them.
\<close>

definition addPin_try :: "Pin option fetched \<Rightarrow> string option comp" where
  "addPin_try f s =
     (case f of
        Rejected error \<Rightarrow> (Inl error, s)
      | Resolved response \<Rightarrow>
          if \<not> ok response
          then (Inl (ErrorObj (''Failed to add pin: '' @ statusText response)), s)
          else (case json response of
                  Inl error \<Rightarrow> (Inl error, s)
                | Inr None \<Rightarrow> (Inl (ErrorObj ''Invalid response when creating pin''), s)
                | Inr (Some createdPin) \<Rightarrow>
                    if pinId createdPin = []
                    then (Inl (ErrorObj ''Invalid response when creating pin''), s)
                    else (Inr (Some (pinId createdPin)), s\<lparr>pins := pins s @ [createdPin]\<rparr>)))"

definition addPin :: "bool \<Rightarrow> Pin option fetched \<Rightarrow> string option comp" where
  "addPin browser f s =
     (if \<not> browser then (Inr None, s)
      else try_catch_finally (addPin_try f) (pins_catch None) pins_finally (pins_begin s))"

definition updatePin_try :: "string \<Rightarrow> Pin option fetched \<Rightarrow> unit comp" where
  "updatePin_try i f s =
     (case f of
        Rejected error \<Rightarrow> (Inl error, s)
      | Resolved response \<Rightarrow>
          if \<not> ok response
          then (Inl (ErrorObj (''Failed to update pin: '' @ statusText response)), s)
          else (case json response of
                  Inl error \<Rightarrow> (Inl error, s)
                | Inr None \<Rightarrow> (Inl (ErrorObj ''Invalid response when updating pin''), s)
                | Inr (Some updatedPin) \<Rightarrow>
                    if pinId updatedPin = []
                    then (Inl (ErrorObj ''Invalid response when updating pin''), s)
                    else (Inr (), s\<lparr>pins := map (\<lambda>pin. if pinId pin = i then updatedPin else pin) (pins s)\<rparr>)))"

definition updatePin :: "bool \<Rightarrow> string \<Rightarrow> Pin option fetched \<Rightarrow> unit comp" where
  "updatePin browser i f s =
     (if \<not> browser \<or> i = [] then (Inr (), s)
      else try_catch_finally (updatePin_try i f) (pins_catch ()) pins_finally (pins_begin s))"

definition deletePin_try :: "string \<Rightarrow> 'a fetched \<Rightarrow> unit comp" where
  "deletePin_try i f s =
     (case f of
        Rejected error \<Rightarrow> (Inl error, s)
      | Resolved response \<Rightarrow>
          if \<not> ok response
          then (Inl (ErrorObj (''Failed to delete pin: '' @ statusText response)), s)
          else (let s1 = s\<lparr>pins := filter (\<lambda>pin. pinId pin \<noteq> i) (pins s)\<rparr> in
                if selectedPinId s1 = Some i then (Inr (), s1\<lparr>selectedPinId := None\<rparr>)
                else (Inr (), s1)))"

definition deletePin :: "bool \<Rightarrow> string \<Rightarrow> 'a fetched \<Rightarrow> unit comp" where
  "deletePin browser i f s =
     (if \<not> browser \<or> i = [] then (Inr (), s)
      else try_catch_finally (deletePin_try i f) (pins_catch ()) pins_finally (pins_begin s))"

definition addTag_try :: "TagDefinition option fetched \<Rightarrow> string option comp" where
  "addTag_try f s =
     (case f of
        Rejected error \<Rightarrow> (Inl error, s)
      | Resolved response \<Rightarrow>
          if \<not> ok response
          then (Inl (ErrorObj (''Failed to add tag: '' @ statusText response)), s)
          else (case json response of
                  Inl error \<Rightarrow> (Inl error, s)
                | Inr None \<Rightarrow> (Inl (ErrorObj ''Invalid response when creating tag''), s)
                | Inr (Some createdTag) \<Rightarrow>
                    if tagId createdTag = []
                    then (Inl (ErrorObj ''Invalid response when creating tag''), s)
                    else (Inr (Some (tagId createdTag)), s\<lparr>tags := tags s @ [createdTag]\<rparr>)))"

definition addTag :: "bool \<Rightarrow> string \<Rightarrow> TagDefinition option fetched \<Rightarrow> string option comp" where
  "addTag browser name f s =
     (if \<not> browser \<or> name = [] then (Inr None, s)
      else try_catch_finally (addTag_try f) (tags_catch None) tags_finally (tags_begin s))"

definition updateTag_try :: "string \<Rightarrow> TagDefinition option fetched \<Rightarrow> unit comp" where
  "updateTag_try i f s =
     (case f of
        Rejected error \<Rightarrow> (Inl error, s)
      | Resolved response \<Rightarrow>
          if \<not> ok response
          then (Inl (ErrorObj (''Failed to update tag: '' @ statusText response)), s)
          else (case json response of
                  Inl error \<Rightarrow> (Inl error, s)
                | Inr None \<Rightarrow> (Inl (ErrorObj ''Invalid response when updating tag''), s)
                | Inr (Some updatedTag) \<Rightarrow>
                    if tagId updatedTag = []
                    then (Inl (ErrorObj ''Invalid response when updating tag''), s)
                    else (Inr (), s\<lparr>tags := map (\<lambda>tag. if tagId tag = i then updatedTag else tag) (tags s)\<rparr>)))"

definition updateTag :: "bool \<Rightarrow> string \<Rightarrow> TagDefinition option fetched \<Rightarrow> unit comp" where
  "updateTag browser i f s =
     (if \<not> browser \<or> i = [] then (Inr (), s)
      else try_catch_finally (updateTag_try i f) (tags_catch ()) tags_finally (tags_begin s))"

definition deleteTag_try :: "string \<Rightarrow> 'a fetched \<Rightarrow> unit comp" where
  "deleteTag_try i f s =
     (case f of
        Rejected error \<Rightarrow> (Inl error, s)
      | Resolved response \<Rightarrow>
          if \<not> ok response
          then (Inl (ErrorObj (''Failed to delete tag: '' @ statusText response)), s)
          else (Inr (), s\<lparr>tags := filter (\<lambda>tag. tagId tag \<noteq> i) (tags s)\<rparr>))"

definition deleteTag :: "bool \<Rightarrow> string \<Rightarrow> 'a fetched \<Rightarrow> unit comp" where
  "deleteTag browser i f s =
     (if \<not> browser \<or> i = [] then (Inr (), s)
      else try_catch_finally (deleteTag_try i f) (tags_catch ()) tags_finally (tags_begin s))"

text \<open>
  \<open>setRegionBoundary\<close> and \<open>updateMapSettings\<close> return at once when their argument
  is \<open>null\<close>; the argument is an option for that guard.
\<close>

definition setRegionBoundary_try :: "RegionBoundary option fetched \<Rightarrow> unit comp" where
  "setRegionBoundary_try f s =
     (case f of
        Rejected error \<Rightarrow> (Inl error, s)
      | Resolved response \<Rightarrow>
          if \<not> ok response
          then (Inl (ErrorObj (''Failed to set region boundary: '' @ statusText response)), s)
          else (case json response of
                  Inl error \<Rightarrow> (Inl error, s)
                | Inr None \<Rightarrow> (Inl (ErrorObj ''Invalid response when setting region boundary''), s)
                | Inr (Some updatedBoundary) \<Rightarrow> (Inr (), s\<lparr>regionBoundary := Some updatedBoundary\<rparr>)))"

definition setRegionBoundary ::
  "bool \<Rightarrow> RegionBoundary option \<Rightarrow> RegionBoundary option fetched \<Rightarrow> unit comp" where
  "setRegionBoundary browser boundary f s =
     (if \<not> browser \<or> boundary = None then (Inr (), s)
      else try_catch_finally (setRegionBoundary_try f) (boundary_catch ()) boundary_finally
             (boundary_begin s))"

definition deleteRegionBoundary_try :: "'a fetched \<Rightarrow> unit comp" where
  "deleteRegionBoundary_try f s =
     (case f of
        Rejected error \<Rightarrow> (Inl error, s)
      | Resolved response \<Rightarrow>
          if \<not> ok response
          then (Inl (ErrorObj (''Failed to delete region boundary: '' @ statusText response)), s)
          else (Inr (), s\<lparr>regionBoundary := None\<rparr>))"

definition deleteRegionBoundary :: "bool \<Rightarrow> 'a fetched \<Rightarrow> unit comp" where
  "deleteRegionBoundary browser f s =
     (if \<not> browser then (Inr (), s)
      else try_catch_finally (deleteRegionBoundary_try f) (boundary_catch ()) boundary_finally
             (boundary_begin s))"

definition updateMapSettings_try :: "MapSettings option fetched \<Rightarrow> unit comp" where
  "updateMapSettings_try f s =
     (case f of
        Rejected error \<Rightarrow> (Inl error, s)
      | Resolved response \<Rightarrow>
          if \<not> ok response
          then (Inl (ErrorObj (''Failed to update map settings: '' @ statusText response)), s)
          else (case json response of
                  Inl error \<Rightarrow> (Inl error, s)
                | Inr None \<Rightarrow> (Inl (ErrorObj ''Invalid response when updating map settings''), s)
                | Inr (Some responseSettings) \<Rightarrow> (Inr (), s\<lparr>mapSettings := responseSettings\<rparr>)))"

definition updateMapSettings ::
  "bool \<Rightarrow> 'p option \<Rightarrow> MapSettings option fetched \<Rightarrow> unit comp" where
  "updateMapSettings browser settings f s =
     (if \<not> browser \<or> settings = None then (Inr (), s)
      else try_catch_finally (updateMapSettings_try f) (settings_catch ()) settings_finally
             (settings_begin s))"

subsection \<open>Outcomes of a remote call\<close>

text \<open>
  A failing outcome is a rejected \<open>fetch\<close> or a response whose \<open>ok\<close> is false.
  The four predicates \<open>_failure\<close> say what an operation that failed leaves: it
  returned (nothing was thrown to the caller), the mirror of its collection is the
  one before the call, the error of its collection is a message, and the loading
  flag is off.
\<close>

definition failing :: "'a fetched \<Rightarrow> bool" where
  "failing f = (case f of Rejected error \<Rightarrow> True | Resolved response \<Rightarrow> \<not> ok response)"

definition answered_404 :: "'a fetched \<Rightarrow> bool" where
  "answered_404 f = (case f of Rejected error \<Rightarrow> False | Resolved response \<Rightarrow> status response = 404)"

definition returned :: "(thrown + 'r) \<times> store \<Rightarrow> bool" where
  "returned out = (\<not> isl (fst out))"

definition pins_failure :: "store \<Rightarrow> (thrown + 'r) \<times> store \<Rightarrow> bool" where
  "pins_failure s out =
     (returned out \<and> pins (snd out) = pins s \<and> pinsError (snd out) \<noteq> None \<and>
      \<not> isLoadingPins (snd out))"

definition tags_failure :: "store \<Rightarrow> (thrown + 'r) \<times> store \<Rightarrow> bool" where
  "tags_failure s out =
     (returned out \<and> tags (snd out) = tags s \<and> tagsError (snd out) \<noteq> None \<and>
      \<not> isLoadingTags (snd out))"

definition boundary_failure :: "store \<Rightarrow> (thrown + 'r) \<times> store \<Rightarrow> bool" where
  "boundary_failure s out =
     (returned out \<and> regionBoundary (snd out) = regionBoundary s \<and>
      boundaryError (snd out) \<noteq> None \<and> \<not> isLoadingBoundary (snd out))"

definition settings_failure :: "store \<Rightarrow> (thrown + 'r) \<times> store \<Rightarrow> bool" where
  "settings_failure s out =
     (returned out \<and> mapSettings (snd out) = mapSettings s \<and>
      settingsError (snd out) \<noteq> None \<and> \<not> isLoadingSettings (snd out))"

text \<open>
  The payload of an outcome that succeeded: the response is \<open>ok\<close> and its body
  could be read.
\<close>

definition fetched_value :: "'a fetched \<Rightarrow> 'a option" where
  "fetched_value f =
     (case f of
        Rejected error \<Rightarrow> None
      | Resolved response \<Rightarrow>
          if ok response then (case json response of Inl error \<Rightarrow> None | Inr v \<Rightarrow> Some v)
          else None)"

text \<open>The three stores of one collection: its mirror, its error and its loading flag.\<close>

definition pins_part :: "store \<Rightarrow> Pin list \<times> string option \<times> bool" where
  "pins_part s = (pins s, pinsError s, isLoadingPins s)"

definition tags_part :: "store \<Rightarrow> TagDefinition list \<times> string option \<times> bool" where
  "tags_part s = (tags s, tagsError s, isLoadingTags s)"

definition boundary_part :: "store \<Rightarrow> RegionBoundary option \<times> string option \<times> bool" where
  "boundary_part s = (regionBoundary s, boundaryError s, isLoadingBoundary s)"

definition settings_part :: "store \<Rightarrow> MapSettings \<times> string option \<times> bool" where
  "settings_part s = (mapSettings s, settingsError s, isLoadingSettings s)"

subsection \<open>Sample values\<close>

text \<open>
  The initial values of the stores as the module declares them; the first and the
  third sample pin of src/lib/db/init.ts, each with the second of its two content
  blocks, and the sample boundary, in the client's shape; and three outcomes of a
  remote call: an answer 500, an answer 404 and an answer 200 with a payload.
\<close>

definition initial_store :: store where
  "initial_store =
     \<lparr>isLoadingPins = False, isLoadingTags = False, isLoadingBoundary = False,
      isLoadingSettings = False, pinsError = None, tagsError = None, boundaryError = None,
      settingsError = None, pins = [], regionBoundary = None,
      mapSettings =
        \<lparr>defaultCenter = (520977 / 10000, 190258 / 10000), defaultZoom = 6,
         allowedContentTypes = [''text'', ''image'', ''video'', ''pdf''],
         contentDisplayOrder = [''text'', ''image'', ''video'', ''pdf''],
         enabledFilters = [''title'', ''mainTag'', ''supportingTags'', ''createdAt''],
         enabledSorting = [''title'', ''mainTag'', ''createdAt'', ''updatedAt'']\<rparr>,
      tags =
        [\<lparr>tagId = ''1'', tagName = ''culture'', tagColor = ''#FF5733''\<rparr>,
         \<lparr>tagId = ''2'', tagName = ''environment'', tagColor = ''#33FF57''\<rparr>,
         \<lparr>tagId = ''3'', tagName = ''health'', tagColor = ''#3357FF''\<rparr>,
         \<lparr>tagId = ''4'', tagName = ''education'', tagColor = ''#F033FF''\<rparr>,
         \<lparr>tagId = ''5'', tagName = ''infrastructure'', tagColor = ''#FF9933''\<rparr>,
         \<lparr>tagId = ''6'', tagName = ''community'', tagColor = ''#33FFF9''\<rparr>],
      isAdminMode = False, selectedPinId = None, filterTags = [], viewMode = MapView\<rparr>"

definition pin1 :: Pin where
  "pin1 =
     \<lparr>pinId = ''pin1'', title = ''Community Center Renovation'',
      position = (522297 / 10000, 210122 / 10000), mainTag = ''culture'',
      supportingTags = [''education'', ''community''],
      content = [\<lparr>blockType = ImageBlock, blockValue = ''https://via.placeholder.com/400x300'',
                  blockTitle = Some ''Community Center''\<rparr>],
      createdAt = ''2025-01-01T00:00:00.000Z'', updatedAt = ''2025-01-01T00:00:00.000Z''\<rparr>"

definition pin3 :: Pin where
  "pin3 =
     \<lparr>pinId = ''pin3'', title = ''Healthcare Clinic Expansion'',
      position = (511079 / 10000, 170385 / 10000), mainTag = ''health'',
      supportingTags = [''infrastructure''],
      content = [\<lparr>blockType = PdfBlock, blockValue = ''https://example.com/sample.pdf'',
                  blockTitle = Some ''Project Documentation''\<rparr>],
      createdAt = ''2025-01-01T00:00:00.000Z'', updatedAt = ''2025-01-01T00:00:00.000Z''\<rparr>"

definition poland :: RegionBoundary where
  "poland =
     \<lparr>boundaryName = ''Poland'',
      coordinates = [(548 / 10, 142 / 10), (548 / 10, 23), (49, 23), (49, 142 / 10), (548 / 10, 142 / 10)],
      minZoom = 5, maxZoom = 18\<rparr>"

definition loaded_store :: store where
  "loaded_store = initial_store\<lparr>pins := [pin1, pin3], regionBoundary := Some poland\<rparr>"

definition answer_500 :: "'a fetched" where
  "answer_500 =
     Resolved \<lparr>status = 500, statusText = ''Internal Server Error'',
               json = Inl (ErrorObj ''body not read'')\<rparr>"

definition answer_404 :: "'a fetched" where
  "answer_404 =
     Resolved \<lparr>status = 404, statusText = ''Not Found'', json = Inl (ErrorObj ''body not read'')\<rparr>"

definition answer_200 :: "'a \<Rightarrow> 'a fetched" where
  "answer_200 v = Resolved \<lparr>status = 200, statusText = ''OK'', json = Inr v\<rparr>"

section \<open>Server: data access (src/lib/db/client.ts) and routes\<close>

subsection \<open>JavaScript values\<close>

text \<open>
  A request body is parsed JSON and every route reads it untyped, so the server side
  works on JavaScript values: \<open>undefined\<close>, \<open>null\<close>, booleans, numbers, strings,
  dates (the timestamps the storage returns, as a point in time), arrays and objects
  (an object lists its properties, each name once; a property is looked up by name).
  \<open>truthy\<close> is the conversion to boolean that \<open>!x\<close>, \<open>x || y\<close> and \<open>x && y\<close> use.
\<close>

datatype jsval =
    JUndefined
  | JNull
  | JBool bool
  | JNum rat
  | JStr string
  | JDate nat
  | JArr "jsval list"
  | JObj "(string \<times> jsval) list"

fun truthy :: "jsval \<Rightarrow> bool" where
  "truthy JUndefined = False"
| "truthy JNull = False"
| "truthy (JBool b) = b"
| "truthy (JNum n) = (n \<noteq> 0)"
| "truthy (JStr str) = (str \<noteq> [])"
| "truthy (JDate t) = True"
| "truthy (JArr xs) = True"
| "truthy (JObj fs) = True"

definition js_or :: "jsval \<Rightarrow> jsval \<Rightarrow> jsval" where
  "js_or a b = (if truthy a then a else b)"

fun isArray :: "jsval \<Rightarrow> bool" where
  "isArray (JArr xs) = True"
| "isArray v = False"

fun elements :: "jsval \<Rightarrow> jsval list" where
  "elements (JArr xs) = xs"
| "elements v = []"

text \<open>
  \<open>field data k\<close> is \<open>data.k\<close> for a value that is not \<open>null\<close>: the property of an
  object, \<open>undefined\<close> when the object has none of that name or the value is not an
  object (no route reads \<open>length\<close> this way). Reading a property of \<open>null\<close> throws a
  \<open>TypeError\<close>; the routes below test for a \<open>null\<close> body where the source first
  reads a property (a parsed body is never \<open>undefined\<close>). \<open>index v i\<close> is \<open>v[i]\<close> on
  an array, \<open>undefined\<close> out of range.
\<close>

definition field :: "jsval \<Rightarrow> string \<Rightarrow> jsval" where
  "field data k =
     (case data of
        JObj fs \<Rightarrow> (case map_of fs k of Some v \<Rightarrow> v | None \<Rightarrow> JUndefined)
      | _ \<Rightarrow> JUndefined)"

definition index :: "jsval \<Rightarrow> nat \<Rightarrow> jsval" where
  "index v i = (case v of JArr xs \<Rightarrow> if i < length xs then xs ! i else JUndefined | _ \<Rightarrow> JUndefined)"

definition type_error :: thrown where
  "type_error = ErrorObj ''Cannot read properties of null''"

text \<open>\<open>String.prototype.includes\<close>: the second string occurs in the first.\<close>

fun starts_with :: "string \<Rightarrow> string \<Rightarrow> bool" where
  "starts_with str [] = True"
| "starts_with [] (c # cs) = False"
| "starts_with (d # ds) (c # cs) = (d = c \<and> starts_with ds cs)"

fun str_includes :: "string \<Rightarrow> string \<Rightarrow> bool" where
  "str_includes [] sub = (sub = [])"
| "str_includes (d # ds) sub = (starts_with (d # ds) sub \<or> str_includes ds sub)"

subsection \<open>Tables\<close>

text \<open>
  The five tables of \<open>initDatabase\<close>. A row holds the values bound to the statement
  that wrote it, the timestamps and serial ids the storage assigns apart; the
  conversion the driver applies to a value whose type is not the column's is not
  modelled, and a JSONB column returns the value that was stringified into it. The
  model is therefore that of the statements for values of the columns' types: where
  the storage refuses a value (a position that is not a number in the \<open>FLOAT\<close>
  columns of pins, a zoom that is not a whole number in the \<open>INTEGER\<close> columns of
  the boundary and of the settings, a content array that \<open>updatePin\<close> passes to the
  driver without \<open>JSON.stringify\<close>) the model stores it. A
  table is the list of its rows in insertion order, and a query without
  \<open>ORDER BY\<close> returns rows in that order. The constraints of the tables that the
  statements below can violate are checked: the primary keys, \<open>UNIQUE (name)\<close> of
  tags, \<open>NOT NULL\<close>, and the foreign key of \<open>pin_supporting_tags\<close>. Statements run
  one at a time against a reachable database; a lost connection is not modelled.
  The columns \<open>id\<close>, \<open>title\<close> and \<open>content\<close> of pins are the fields \<open>p_id\<close>,
  \<open>p_title\<close>, \<open>p_content\<close>; the columns of tags \<open>t_id\<close>, \<open>t_name\<close>, \<open>t_color\<close>;
  those of the boundary \<open>b_id\<close>, \<open>b_name\<close>, \<open>b_coordinates\<close>, \<open>min_zoom\<close>,
  \<open>max_zoom\<close>; \<open>id\<close> of the settings \<open>s_id\<close>.
\<close>

record DatabasePin =
  p_id :: jsval
  p_title :: jsval
  position_lat :: jsval
  position_lng :: jsval
  main_tag :: jsval
  p_content :: jsval
  created_at :: nat
  updated_at :: nat

record TagRow =
  t_id :: jsval
  t_name :: jsval
  t_color :: jsval

record SupportingTagRow =
  pin_id :: jsval
  tag_name :: jsval

record DatabaseRegionBoundary =
  b_id :: nat
  b_name :: jsval
  b_coordinates :: jsval
  min_zoom :: jsval
  max_zoom :: jsval

record DatabaseMapSettings =
  s_id :: nat
  default_center :: jsval
  default_zoom :: jsval
  allowed_content_types :: jsval
  content_display_order :: jsval
  enabled_filters :: jsval
  enabled_sorting :: jsval

record database =
  tbl_pins :: "DatabasePin list"
  tbl_tags :: "TagRow list"
  tbl_pin_supporting_tags :: "SupportingTagRow list"
  tbl_region_boundaries :: "DatabaseRegionBoundary list"
  tbl_map_settings :: "DatabaseMapSettings list"
  region_boundaries_id_seq :: nat
  map_settings_id_seq :: nat

text \<open>
  A parameter that is \<open>undefined\<close> is bound as \<open>NULL\<close>. The errors of the storage
  are thrown \<open>Error\<close> objects; of their messages only the words \<open>duplicate key\<close> are
  read by the code.
\<close>

definition is_null :: "jsval \<Rightarrow> bool" where
  "is_null v = (v = JUndefined \<or> v = JNull)"

definition duplicate_key :: "string \<Rightarrow> thrown" where
  "duplicate_key c = ErrorObj (''duplicate key value violates unique constraint '' @ c)"

definition not_null_violation :: "string \<Rightarrow> thrown" where
  "not_null_violation t = ErrorObj (''null value in a column of relation '' @ t @ '' violates not-null constraint'')"

definition foreign_key_violation :: thrown where
  "foreign_key_violation =
     ErrorObj ''insert or update on table pin_supporting_tags violates foreign key constraint''"

text \<open>
  A data-access function that writes returns its value or the thrown error, and
  the database it leaves; one that only reads returns its value or the error. The
  functions keep their names, with the prefix \<open>db_\<close> (they are the methods of the
  object \<open>db\<close>) where the client store has an operation of the same name.
\<close>

type_synonym 'a written = "(thrown + 'a) \<times> database"

subsection \<open>Pins\<close>

definition getPinById :: "string \<Rightarrow> database \<Rightarrow> thrown + DatabasePin option" where
  "getPinById i db =
     (if i = [] then Inl (ErrorObj ''Pin ID is required'')
      else (case filter (\<lambda>row. p_id row = JStr i) (tbl_pins db) of
              [] \<Rightarrow> Inr None
            | row # rest \<Rightarrow> Inr (Some row)))"

text \<open>The argument of \<open>createPin\<close>: the six values the route prepares.\<close>

record PinInput =
  in_id :: jsval
  in_title :: jsval
  in_position_lat :: jsval
  in_position_lng :: jsval
  in_main_tag :: jsval
  in_content :: jsval

definition createPin :: "nat \<Rightarrow> PinInput \<Rightarrow> database \<Rightarrow> DatabasePin list written" where
  "createPin now pin db =
     (if \<not> truthy (in_id pin) then (Inl (ErrorObj ''Valid pin data is required''), db)
      else if is_null (in_title pin) \<or> is_null (in_position_lat pin) \<or>
              is_null (in_position_lng pin) \<or> is_null (in_main_tag pin) \<or>
              in_content pin = JUndefined
      then (Inl (not_null_violation ''pins''), db)
      else if list_ex (\<lambda>row. p_id row = in_id pin) (tbl_pins db)
      then (Inl (duplicate_key ''pins_pkey''), db)
      else (let row = \<lparr>p_id = in_id pin, p_title = in_title pin,
                        position_lat = in_position_lat pin, position_lng = in_position_lng pin,
                        main_tag = in_main_tag pin, p_content = in_content pin,
                        created_at = now, updated_at = now\<rparr>
            in (Inr [row], db\<lparr>tbl_pins := tbl_pins db @ [row]\<rparr>)))"

text \<open>
  The argument \<open>updates\<close> of \<open>updatePin\<close> is the \<open>Partial<DatabasePin>\<close> the route
  builds: each of the five columns the route can set is absent (\<open>None\<close>) or present
  with a value. Their names have no capital letter, so the conversion of the keys to
  snake case leaves them as they are, and the statement sets exactly the columns
  present, and \<open>updated_at\<close>. \<open>Object.keys(updates).length === 0\<close> is
  \<open>no_updates\<close>.
\<close>

record PinUpdates =
  set_title :: "jsval option"
  set_position_lat :: "jsval option"
  set_position_lng :: "jsval option"
  set_main_tag :: "jsval option"
  set_content :: "jsval option"

definition no_updates :: "PinUpdates \<Rightarrow> bool" where
  "no_updates u =
     (set_title u = None \<and> set_position_lat u = None \<and> set_position_lng u = None \<and>
      set_main_tag u = None \<and> set_content u = None)"

definition sets_null :: "PinUpdates \<Rightarrow> bool" where
  "sets_null u =
     (list_ex (\<lambda>v. case v of None \<Rightarrow> False | Some x \<Rightarrow> is_null x)
        [set_title u, set_position_lat u, set_position_lng u, set_main_tag u, set_content u])"

definition assign :: "'a option \<Rightarrow> 'a \<Rightarrow> 'a" where
  "assign new old = (case new of None \<Rightarrow> old | Some v \<Rightarrow> v)"

definition update_row :: "nat \<Rightarrow> PinUpdates \<Rightarrow> DatabasePin \<Rightarrow> DatabasePin" where
  "update_row now u row =
     row\<lparr>p_title := assign (set_title u) (p_title row),
         position_lat := assign (set_position_lat u) (position_lat row),
         position_lng := assign (set_position_lng u) (position_lng row),
         main_tag := assign (set_main_tag u) (main_tag row),
         p_content := assign (set_content u) (p_content row),
         updated_at := now\<rparr>"

definition db_updatePin ::
  "nat \<Rightarrow> string \<Rightarrow> PinUpdates \<Rightarrow> database \<Rightarrow> DatabasePin list written" where
  "db_updatePin now i updates db =
     (if i = [] then (Inl (ErrorObj ''Pin ID is required''), db)
      else if no_updates updates then (Inl (ErrorObj ''Updates are required''), db)
      else if list_ex (\<lambda>row. p_id row = JStr i) (tbl_pins db) \<and> sets_null updates
      then (Inl (not_null_violation ''pins''), db)
      else (let rows = map (\<lambda>row. if p_id row = JStr i then update_row now updates row else row)
                           (tbl_pins db)
            in (Inr (filter (\<lambda>row. p_id row = JStr i) rows), db\<lparr>tbl_pins := rows\<rparr>)))"

text \<open>Deleting a pin cascades to its supporting-tag rows.\<close>

definition db_deletePin :: "string \<Rightarrow> database \<Rightarrow> unit written" where
  "db_deletePin i db =
     (if i = [] then (Inl (ErrorObj ''Pin ID is required''), db)
      else (Inr (), db\<lparr>tbl_pins := filter (\<lambda>row. p_id row \<noteq> JStr i) (tbl_pins db),
                        tbl_pin_supporting_tags :=
                          filter (\<lambda>row. pin_id row \<noteq> JStr i) (tbl_pin_supporting_tags db)\<rparr>))"

subsection \<open>Supporting tags\<close>

definition addPinSupportingTag :: "jsval \<Rightarrow> jsval \<Rightarrow> database \<Rightarrow> SupportingTagRow list written" where
  "addPinSupportingTag pid tname db =
     (if \<not> truthy pid then (Inl (ErrorObj ''Pin ID is required''), db)
      else if \<not> truthy tname then (Inl (ErrorObj ''Tag name is required''), db)
      else if list_ex (\<lambda>row. pin_id row = pid \<and> tag_name row = tname) (tbl_pin_supporting_tags db)
      then (Inr [], db)
      else if \<not> list_ex (\<lambda>row. p_id row = pid) (tbl_pins db)
      then (Inl foreign_key_violation, db)
      else (let row = \<lparr>pin_id = pid, tag_name = tname\<rparr>
            in (Inr [row], db\<lparr>tbl_pin_supporting_tags := tbl_pin_supporting_tags db @ [row]\<rparr>)))"

text \<open>The query \<open>SELECT tag_name FROM pin_supporting_tags WHERE pin_id = $1\<close> of the routes.\<close>

definition select_supporting_tags :: "jsval \<Rightarrow> database \<Rightarrow> jsval list" where
  "select_supporting_tags pid db =
     map tag_name (filter (\<lambda>row. pin_id row = pid) (tbl_pin_supporting_tags db))"

subsection \<open>Tags\<close>

text \<open>
  \<open>createTag\<close> inserts with \<open>ON CONFLICT (name) DO UPDATE SET color\<close>: when a row
  of that name exists the statement sets its color and returns it, and raises
  nothing; only a new name with the id of another row violates a constraint, the
  primary key.
\<close>

definition createTag :: "TagRow \<Rightarrow> database \<Rightarrow> TagRow list written" where
  "createTag tag db =
     (if \<not> truthy (t_id tag) \<or> \<not> truthy (t_name tag)
      then (Inl (ErrorObj ''Valid tag data is required''), db)
      else if is_null (t_color tag) then (Inl (not_null_violation ''tags''), db)
      else if list_ex (\<lambda>row. t_name row = t_name tag) (tbl_tags db)
      then (let rows = map (\<lambda>row. if t_name row = t_name tag then row\<lparr>t_color := t_color tag\<rparr>
                                    else row) (tbl_tags db)
            in (Inr (filter (\<lambda>row. t_name row = t_name tag) rows), db\<lparr>tbl_tags := rows\<rparr>))
      else if list_ex (\<lambda>row. t_id row = t_id tag) (tbl_tags db)
      then (Inl (duplicate_key ''tags_pkey''), db)
      else (Inr [tag], db\<lparr>tbl_tags := tbl_tags db @ [tag]\<rparr>))"

definition db_deleteTag :: "string \<Rightarrow> database \<Rightarrow> unit written" where
  "db_deleteTag i db =
     (if i = [] then (Inl (ErrorObj ''Tag ID is required''), db)
      else (Inr (), db\<lparr>tbl_tags := filter (\<lambda>row. t_id row \<noteq> JStr i) (tbl_tags db)\<rparr>))"

subsection \<open>Region boundary\<close>

record BoundaryInput =
  in_name :: jsval
  in_coordinates :: jsval
  in_min_zoom :: jsval
  in_max_zoom :: jsval

definition getRegionBoundary :: "database \<Rightarrow> DatabaseRegionBoundary option" where
  "getRegionBoundary db =
     (case tbl_region_boundaries db of [] \<Rightarrow> None | row # rest \<Rightarrow> Some row)"

text \<open>
  Two statements, with no transaction around them: the deletion of every boundary
  row stays when the insertion fails.
\<close>

definition db_setRegionBoundary ::
  "BoundaryInput \<Rightarrow> database \<Rightarrow> DatabaseRegionBoundary list written" where
  "db_setRegionBoundary boundary db =
     (if \<not> truthy (in_name boundary) \<or> \<not> truthy (in_coordinates boundary)
      then (Inl (ErrorObj ''Valid boundary data is required''), db)
      else (let db1 = db\<lparr>tbl_region_boundaries := []\<rparr> in
            if is_null (in_min_zoom boundary) \<or> is_null (in_max_zoom boundary)
            then (Inl (not_null_violation ''region_boundaries''), db1)
            else (let row = \<lparr>b_id = Suc (region_boundaries_id_seq db1),
                              b_name = in_name boundary,
                              b_coordinates = in_coordinates boundary,
                              min_zoom = in_min_zoom boundary,
                              max_zoom = in_max_zoom boundary\<rparr>
                  in (Inr [row],
                      db1\<lparr>tbl_region_boundaries := tbl_region_boundaries db1 @ [row],
                          region_boundaries_id_seq := Suc (region_boundaries_id_seq db1)\<rparr>))))"

subsection \<open>Map settings\<close>





subsection \<open>Replies\<close>

text \<open>
  \<open>json(body)\<close> answers with status 200, \<open>json(body, { status })\<close> with the given
  status. Every route is a \<open>try\<close> statement whose \<open>catch\<close> clause answers 500 with
  the message of the thrown value; the part inside the \<open>try\<close> is named \<open>_try\<close>.
\<close>

record reply =
  reply_status :: nat
  reply_body :: jsval

definition json_reply :: "jsval \<Rightarrow> reply" where
  "json_reply b = \<lparr>reply_status = 200, reply_body = b\<rparr>"

definition json_status :: "jsval \<Rightarrow> nat \<Rightarrow> reply" where
  "json_status b n = \<lparr>reply_status = n, reply_body = b\<rparr>"

definition error_body :: "string \<Rightarrow> jsval" where
  "error_body message = JObj [(''error'', JStr message)]"

definition catch_500 :: "thrown \<Rightarrow> reply" where
  "catch_500 error = json_status (error_body (toErrorMessage error)) 500"

definition pin_reply_body :: "DatabasePin \<Rightarrow> jsval \<Rightarrow> jsval" where
  "pin_reply_body row supporting =
     JObj [(''id'', p_id row), (''title'', p_title row),
           (''position'', JArr [position_lat row, position_lng row]),
           (''mainTag'', main_tag row), (''supportingTags'', supporting),
           (''content'', p_content row), (''createdAt'', JDate (created_at row)),
           (''updatedAt'', JDate (updated_at row))]"

definition tag_reply_body :: "TagRow \<Rightarrow> jsval" where
  "tag_reply_body row = JObj [(''id'', t_id row), (''name'', t_name row), (''color'', t_color row)]"

definition boundary_reply_body :: "DatabaseRegionBoundary \<Rightarrow> jsval" where
  "boundary_reply_body row =
     JObj [(''name'', b_name row), (''coordinates'', b_coordinates row),
           (''minZoom'', min_zoom row), (''maxZoom'', max_zoom row)]"


subsection \<open>Routes of the pins\<close>

text \<open>
  A route takes what its environment gives it: the outcome of \<open>request.json()\<close>
  (the parsed body, or the thrown value for a body that is not JSON), the path
  parameter \<open>id\<close>, the string \<open>generateId()\<close> returns if it is called, and the time
  \<open>NOW()\<close> of the statement. It returns its reply and the database it leaves.
\<close>

fun add_supporting_tags :: "jsval \<Rightarrow> jsval list \<Rightarrow> database \<Rightarrow> unit written" where
  "add_supporting_tags pid [] db = (Inr (), db)"
| "add_supporting_tags pid (tag # rest) db =
     (case addPinSupportingTag pid tag db of
        (Inl error, db1) \<Rightarrow> (Inl error, db1)
      | (Inr rows, db1) \<Rightarrow> add_supporting_tags pid rest db1)"

text \<open>
  The steps of the POST route, in the order of the source: the position taken from
  the body, the pin data prepared for the database, the insertion, the loop over the
  supporting tags, and the reply in the client's format.
\<close>

definition POST_pins_position :: "jsval \<Rightarrow> jsval" where
  "POST_pins_position data =
     (if truthy (field data ''position'') \<and> isArray (field data ''position'')
      then field data ''position'' else JArr [JNum 0, JNum 0])"

definition POST_pins_input :: "string \<Rightarrow> jsval \<Rightarrow> PinInput" where
  "POST_pins_input gen data =
     \<lparr>in_id = js_or (field data ''id'') (JStr gen),
      in_title = js_or (field data ''title'') (JStr ''Untitled''),
      in_position_lat = index (POST_pins_position data) 0,
      in_position_lng = index (POST_pins_position data) 1,
      in_main_tag = js_or (field data ''mainTag'') (JStr ''''),
      in_content = (if isArray (field data ''content'') then field data ''content'' else JArr [])\<rparr>"

definition POST_pins_supporting :: "jsval \<Rightarrow> jsval \<Rightarrow> database \<Rightarrow> unit written" where
  "POST_pins_supporting data pid db =
     (if truthy (field data ''supportingTags'') \<and> isArray (field data ''supportingTags'')
      then add_supporting_tags pid (elements (field data ''supportingTags'')) db
      else (Inr (), db))"

definition POST_pins_reply :: "jsval \<Rightarrow> DatabasePin \<Rightarrow> reply" where
  "POST_pins_reply data createdPin =
     json_status
       (pin_reply_body createdPin
          (if isArray (field data ''supportingTags'') then field data ''supportingTags''
           else JArr []))
       201"

definition POST_pins_try :: "string \<Rightarrow> nat \<Rightarrow> thrown + jsval \<Rightarrow> database \<Rightarrow> reply written" where
  "POST_pins_try gen now body db =
     (case body of
        Inl error \<Rightarrow> (Inl error, db)
      | Inr data \<Rightarrow>
          if data = JNull then (Inl type_error, db)
          else (case createPin now (POST_pins_input gen data) db of
                  (Inl error, db1) \<Rightarrow> (Inl error, db1)
                | (Inr [], db1) \<Rightarrow>
                    (Inr (json_status (error_body ''Failed to create pin'') 500), db1)
                | (Inr (createdPin # rest), db1) \<Rightarrow>
                    (case POST_pins_supporting data (p_id createdPin) db1 of
                       (Inl error, db2) \<Rightarrow> (Inl error, db2)
                     | (Inr u, db2) \<Rightarrow> (Inr (POST_pins_reply data createdPin), db2))))"

definition POST_pins :: "string \<Rightarrow> nat \<Rightarrow> thrown + jsval \<Rightarrow> database \<Rightarrow> reply \<times> database" where
  "POST_pins gen now body db =
     (case POST_pins_try gen now body db of
        (Inl error, db1) \<Rightarrow> (catch_500 error, db1)
      | (Inr r, db1) \<Rightarrow> (r, db1))"

definition GET_pin_try :: "string \<Rightarrow> database \<Rightarrow> thrown + reply" where
  "GET_pin_try i db =
     (if i = [] then Inr (json_status (error_body ''Pin ID is required'') 400)
      else (case getPinById i db of
              Inl error \<Rightarrow> Inl error
            | Inr None \<Rightarrow> Inr (json_status (error_body ''Pin not found'') 404)
            | Inr (Some pin) \<Rightarrow>
                Inr (json_reply (pin_reply_body pin (JArr (select_supporting_tags (JStr i) db))))))"

definition GET_pin :: "string \<Rightarrow> database \<Rightarrow> reply" where
  "GET_pin i db = (case GET_pin_try i db of Inl error \<Rightarrow> catch_500 error | Inr r \<Rightarrow> r)"

text \<open>\<open>present v\<close> is the test \<open>v !== undefined\<close> under which a route copies a value.\<close>

definition present :: "jsval \<Rightarrow> jsval option" where
  "present v = (if v \<noteq> JUndefined then Some v else None)"

text \<open>
  The steps of the PUT route: the update object built from the fields of the body,
  the update, the replacement of the supporting tags when the body has the field,
  and the reply with the supporting tags read back.
\<close>

definition PUT_pin_updates :: "jsval \<Rightarrow> PinUpdates" where
  "PUT_pin_updates data =
     \<lparr>set_title = present (field data ''title''),
      set_position_lat =
        (if field data ''position'' \<noteq> JUndefined \<and> isArray (field data ''position'')
         then Some (index (field data ''position'') 0) else None),
      set_position_lng =
        (if field data ''position'' \<noteq> JUndefined \<and> isArray (field data ''position'')
         then Some (index (field data ''position'') 1) else None),
      set_main_tag = present (field data ''mainTag''),
      set_content = present (field data ''content'')\<rparr>"

definition PUT_pin_supporting :: "string \<Rightarrow> jsval \<Rightarrow> database \<Rightarrow> unit written" where
  "PUT_pin_supporting i data db =
     (if field data ''supportingTags'' \<noteq> JUndefined
      then (let db1 = db\<lparr>tbl_pin_supporting_tags :=
                        filter (\<lambda>row. pin_id row \<noteq> JStr i) (tbl_pin_supporting_tags db)\<rparr>
            in if isArray (field data ''supportingTags'')
               then add_supporting_tags (JStr i) (elements (field data ''supportingTags'')) db1
               else (Inr (), db1))
      else (Inr (), db))"

definition PUT_pin_try ::
  "nat \<Rightarrow> string \<Rightarrow> thrown + jsval \<Rightarrow> database \<Rightarrow> reply written" where
  "PUT_pin_try now i body db =
     (if i = [] then (Inr (json_status (error_body ''Pin ID is required'') 400), db)
      else (case body of
              Inl error \<Rightarrow> (Inl error, db)
            | Inr data \<Rightarrow>
               (case getPinById i db of
                  Inl error \<Rightarrow> (Inl error, db)
                | Inr None \<Rightarrow> (Inr (json_status (error_body ''Pin not found'') 404), db)
                | Inr (Some existingPin) \<Rightarrow>
                    if data = JNull then (Inl type_error, db)
                    else (case db_updatePin now i (PUT_pin_updates data) db of
                            (Inl error, db1) \<Rightarrow> (Inl error, db1)
                          | (Inr [], db1) \<Rightarrow>
                              (Inr (json_status (error_body ''Failed to update pin'') 500), db1)
                          | (Inr (updatedPin # rest), db1) \<Rightarrow>
                              (case PUT_pin_supporting i data db1 of
                                 (Inl error, db2) \<Rightarrow> (Inl error, db2)
                               | (Inr u, db2) \<Rightarrow>
                                   (Inr (json_reply
                                           (pin_reply_body updatedPin
                                              (JArr (select_supporting_tags (JStr i) db2)))),
                                    db2))))))"

definition PUT_pin :: "nat \<Rightarrow> string \<Rightarrow> thrown + jsval \<Rightarrow> database \<Rightarrow> reply \<times> database" where
  "PUT_pin now i body db =
     (case PUT_pin_try now i body db of
        (Inl error, db1) \<Rightarrow> (catch_500 error, db1)
      | (Inr r, db1) \<Rightarrow> (r, db1))"

subsection \<open>Routes of the tags\<close>

definition POST_tags_try :: "string \<Rightarrow> thrown + jsval \<Rightarrow> database \<Rightarrow> reply written" where
  "POST_tags_try gen body db =
     (case body of
        Inl error \<Rightarrow> (Inl error, db)
      | Inr data \<Rightarrow>
          if data = JNull then (Inl type_error, db)
          else (let tag = \<lparr>t_id = js_or (field data ''id'') (JStr gen),
                           t_name = js_or (field data ''name'') (JStr ''''),
                           t_color = js_or (field data ''color'') (JStr ''#cccccc'')\<rparr>
                in if \<not> truthy (t_name tag) \<or> \<not> truthy (t_color tag)
                   then (Inr (json_status (error_body ''Name and color are required fields'') 400), db)
                   else (case createTag tag db of
                           (Inl error, db1) \<Rightarrow> (Inl error, db1)
                         | (Inr [], db1) \<Rightarrow>
                             (Inr (json_status (error_body ''Failed to create tag'') 500), db1)
                         | (Inr (createdTag # rest), db1) \<Rightarrow>
                             (Inr (json_status (tag_reply_body createdTag) 201), db1))))"

definition POST_tags_catch :: "thrown \<Rightarrow> reply" where
  "POST_tags_catch error =
     (let errorMessage = toErrorMessage error in
      if str_includes errorMessage ''23505'' \<or> str_includes errorMessage ''duplicate key''
      then json_status (error_body ''A tag with this name already exists'') 409
      else json_status (error_body errorMessage) 500)"

definition POST_tags :: "string \<Rightarrow> thrown + jsval \<Rightarrow> database \<Rightarrow> reply \<times> database" where
  "POST_tags gen body db =
     (case POST_tags_try gen body db of
        (Inl error, db1) \<Rightarrow> (POST_tags_catch error, db1)
      | (Inr r, db1) \<Rightarrow> (r, db1))"

definition DELETE_tag_try :: "string \<Rightarrow> database \<Rightarrow> reply written" where
  "DELETE_tag_try i db =
     (if i = [] then (Inr (json_status (error_body ''Tag ID is required'') 400), db)
      else (case filter (\<lambda>row. t_id row = JStr i) (tbl_tags db) of
              [] \<Rightarrow> (Inr (json_status (error_body ''Tag not found'') 404), db)
            | existingTag # others \<Rightarrow>
                if list_ex (\<lambda>row. main_tag row = t_name existingTag) (tbl_pins db)
                then (Inr (json_status
                             (error_body ''Cannot delete tag that is used as a main tag by pins'')
                             400), db)
                else if list_ex (\<lambda>row. tag_name row = t_name existingTag)
                          (tbl_pin_supporting_tags db)
                then (Inr (json_status
                             (error_body ''Cannot delete tag that is used as a supporting tag by pins'')
                             400), db)
                else (case db_deleteTag i db of
                        (Inl error, db1) \<Rightarrow> (Inl error, db1)
                      | (Inr u, db1) \<Rightarrow> (Inr (json_reply (JObj [(''success'', JBool True)])), db1))))"

definition DELETE_tag :: "string \<Rightarrow> database \<Rightarrow> reply \<times> database" where
  "DELETE_tag i db =
     (case DELETE_tag_try i db of
        (Inl error, db1) \<Rightarrow> (catch_500 error, db1)
      | (Inr r, db1) \<Rightarrow> (r, db1))"

subsection \<open>Routes of the boundary and of the settings\<close>

definition PUT_boundary_try :: "thrown + jsval \<Rightarrow> database \<Rightarrow> reply written" where
  "PUT_boundary_try body db =
     (case body of
        Inl error \<Rightarrow> (Inl error, db)
      | Inr data \<Rightarrow>
          if data = JNull then (Inl type_error, db)
          else if \<not> truthy (field data ''name'') \<or> \<not> truthy (field data ''coordinates'') \<or>
                  \<not> isArray (field data ''coordinates'')
          then (Inr (json_status (error_body ''Name and coordinates are required fields'') 400), db)
          else if list_ex (\<lambda>coord. \<not> isArray coord \<or> length (elements coord) \<noteq> 2)
                    (elements (field data ''coordinates''))
          then (Inr (json_status
                       (error_body ''Coordinates must be an array of [lat, lng] pairs'') 400), db)
          else (let boundary = \<lparr>in_name = field data ''name'',
                                in_coordinates = field data ''coordinates'',
                                in_min_zoom = js_or (field data ''minZoom'') (JNum 5),
                                in_max_zoom = js_or (field data ''maxZoom'') (JNum 18)\<rparr>
                in case db_setRegionBoundary boundary db of
                     (Inl error, db1) \<Rightarrow> (Inl error, db1)
                   | (Inr [], db1) \<Rightarrow>
                       (Inr (json_status (error_body ''Failed to update boundary'') 500), db1)
                   | (Inr (updatedDbBoundary # rest), db1) \<Rightarrow>
                       (Inr (json_reply (boundary_reply_body updatedDbBoundary)), db1)))"

definition PUT_boundary :: "thrown + jsval \<Rightarrow> database \<Rightarrow> reply \<times> database" where
  "PUT_boundary body db =
     (case PUT_boundary_try body db of
        (Inl error, db1) \<Rightarrow> (catch_500 error, db1)
      | (Inr r, db1) \<Rightarrow> (r, db1))"




subsection \<open>Referential notions and a sample database\<close>

text \<open>
  A pin references a tag name when the name is its main tag or one of its
  supporting-tag rows carries it. The foreign key of \<open>pin_supporting_tags\<close> says
  that every supporting-tag row belongs to a pin of the table, and the primary key
  of \<open>tags\<close> that no two tag rows share an id.
\<close>

definition pin_references :: "database \<Rightarrow> jsval \<Rightarrow> DatabasePin \<Rightarrow> bool" where
  "pin_references db name row =
     (main_tag row = name \<or>
      list_ex (\<lambda>st. pin_id st = p_id row \<and> tag_name st = name) (tbl_pin_supporting_tags db))"

definition tag_in_use :: "jsval \<Rightarrow> database \<Rightarrow> bool" where
  "tag_in_use name db = list_ex (pin_references db name) (tbl_pins db)"

definition supporting_tags_have_pins :: "database \<Rightarrow> bool" where
  "supporting_tags_have_pins db =
     list_all (\<lambda>st. list_ex (\<lambda>row. p_id row = pin_id st) (tbl_pins db))
       (tbl_pin_supporting_tags db)"

definition tag_ids_unique :: "database \<Rightarrow> bool" where
  "tag_ids_unique db = distinct (map t_id (tbl_tags db))"

text \<open>
  The database after \<open>initializeDatabase\<close> of src/lib/db/init.ts, with the first
  and the third of its sample pins, each with the second of its two content blocks,
  created at time 1.
\<close>

definition seeded_db :: database where
  "seeded_db =
     \<lparr>tbl_pins =
        [\<lparr>p_id = JStr ''pin1'', p_title = JStr ''Community Center Renovation'',
          position_lat = JNum (522297 / 10000), position_lng = JNum (210122 / 10000),
          main_tag = JStr ''culture'',
          p_content = JArr [JObj [(''type'', JStr ''image''),
                                  (''value'', JStr ''https://via.placeholder.com/400x300''),
                                  (''title'', JStr ''Community Center'')]],
          created_at = 1, updated_at = 1\<rparr>,
         \<lparr>p_id = JStr ''pin3'', p_title = JStr ''Healthcare Clinic Expansion'',
          position_lat = JNum (511079 / 10000), position_lng = JNum (170385 / 10000),
          main_tag = JStr ''health'',
          p_content = JArr [JObj [(''type'', JStr ''pdf''),
                                  (''value'', JStr ''https://example.com/sample.pdf''),
                                  (''title'', JStr ''Project Documentation'')]],
          created_at = 1, updated_at = 1\<rparr>],
      tbl_tags =
        [\<lparr>t_id = JStr ''1'', t_name = JStr ''culture'', t_color = JStr ''#FF5733''\<rparr>,
         \<lparr>t_id = JStr ''2'', t_name = JStr ''environment'', t_color = JStr ''#33FF57''\<rparr>,
         \<lparr>t_id = JStr ''3'', t_name = JStr ''health'', t_color = JStr ''#3357FF''\<rparr>,
         \<lparr>t_id = JStr ''4'', t_name = JStr ''education'', t_color = JStr ''#F033FF''\<rparr>,
         \<lparr>t_id = JStr ''5'', t_name = JStr ''infrastructure'', t_color = JStr ''#FF9933''\<rparr>,
         \<lparr>t_id = JStr ''6'', t_name = JStr ''community'', t_color = JStr ''#33FFF9''\<rparr>],
      tbl_pin_supporting_tags =
        [\<lparr>pin_id = JStr ''pin1'', tag_name = JStr ''education''\<rparr>,
         \<lparr>pin_id = JStr ''pin1'', tag_name = JStr ''community''\<rparr>,
         \<lparr>pin_id = JStr ''pin3'', tag_name = JStr ''infrastructure''\<rparr>],
      tbl_region_boundaries =
        [\<lparr>b_id = 1, b_name = JStr ''Poland'',
          b_coordinates = JArr [JArr [JNum (548 / 10), JNum (142 / 10)],
                                JArr [JNum (548 / 10), JNum 23],
                                JArr [JNum 49, JNum 23],
                                JArr [JNum 49, JNum (142 / 10)],
                                JArr [JNum (548 / 10), JNum (142 / 10)]],
          min_zoom = JNum 5, max_zoom = JNum 18\<rparr>],
      tbl_map_settings =
        [\<lparr>s_id = 1, default_center = JArr [JNum (520977 / 10000), JNum (190258 / 10000)],
          default_zoom = JNum 6,
          allowed_content_types = JArr (map JStr [''text'', ''image'', ''video'', ''pdf'']),
          content_display_order = JArr (map JStr [''text'', ''image'', ''video'', ''pdf'']),
          enabled_filters = JArr (map JStr [''title'', ''mainTag'', ''supportingTags'', ''createdAt'']),
          enabled_sorting = JArr (map JStr [''title'', ''mainTag'', ''createdAt'', ''updatedAt''])\<rparr>],
      region_boundaries_id_seq = 1,
      map_settings_id_seq = 1\<rparr>"

text \<open>
  A request body as the client sends it for a new pin: an id it generated, a
  title, the position 52.1, 19.0, the main tag \<open>health\<close>, no supporting tags and
  one text block.
\<close>

definition clinic_body :: jsval where
  "clinic_body =
     JObj [(''id'', JStr ''k3j9x0a7''), (''title'', JStr ''Clinic opening hours''),
           (''position'', JArr [JNum (521 / 10), JNum 19]), (''mainTag'', JStr ''health''),
           (''supportingTags'', JArr []),
           (''content'', JArr [JObj [(''type'', JStr ''text''),
                                     (''value'', JStr ''Open on weekdays from 8 to 16'')]])]"

subsection \<open>Bodies with fields of their declared types\<close>




subsection \<open>Histories of the pins table\<close>

text \<open>
  The three functions of the data-access layer that write the pins table, as the
  writes of a history: \<open>createPin\<close> and \<open>updatePin\<close> with the time \<open>NOW()\<close> gave
  them, and \<open>deletePin\<close>. \<open>history ws db\<close> is the database after the writes \<open>ws\<close>
  in turn (a write that throws leaves the database as its function left it).
  \<open>in_order c ws\<close> says that the times of the writes never go back, starting from
  the time \<open>c\<close>, and \<open>last_time c ws\<close> is the time of the last of them.
  \<open>timestamps_ordered c db\<close> says of every pin row that it was created no later
  than it was last updated, and last updated no later than \<open>c\<close>.
\<close>

datatype pin_write =
    Created nat PinInput
  | Updated nat string PinUpdates
  | Deleted string

fun apply_write :: "pin_write \<Rightarrow> database \<Rightarrow> database" where
  "apply_write (Created now pin) db = snd (createPin now pin db)"
| "apply_write (Updated now i updates) db = snd (db_updatePin now i updates db)"
| "apply_write (Deleted i) db = snd (db_deletePin i db)"

fun history :: "pin_write list \<Rightarrow> database \<Rightarrow> database" where
  "history [] db = db"
| "history (w # ws) db = history ws (apply_write w db)"

fun in_order :: "nat \<Rightarrow> pin_write list \<Rightarrow> bool" where
  "in_order c [] = True"
| "in_order c (Created now pin # ws) = (c \<le> now \<and> in_order now ws)"
| "in_order c (Updated now i updates # ws) = (c \<le> now \<and> in_order now ws)"
| "in_order c (Deleted i # ws) = in_order c ws"

fun last_time :: "nat \<Rightarrow> pin_write list \<Rightarrow> nat" where
  "last_time c [] = c"
| "last_time c (Created now pin # ws) = last_time now ws"
| "last_time c (Updated now i updates # ws) = last_time now ws"
| "last_time c (Deleted i # ws) = last_time c ws"

definition timestamps_ordered :: "nat \<Rightarrow> database \<Rightarrow> bool" where
  "timestamps_ordered c db =
     list_all (\<lambda>row. created_at row \<le> updated_at row \<and> updated_at row \<le> c) (tbl_pins db)"

text \<open>
  The two calls of \<open>createPin\<close> by which \<open>initializeDatabase\<close> writes the two sample
  pins of the seeded database, at time 1, and the seeded database before them.
\<close>

definition seed_writes :: "pin_write list" where
  "seed_writes =
     [Created 1
        \<lparr>in_id = JStr ''pin1'', in_title = JStr ''Community Center Renovation'',
         in_position_lat = JNum (522297 / 10000), in_position_lng = JNum (210122 / 10000),
         in_main_tag = JStr ''culture'',
         in_content = JArr [JObj [(''type'', JStr ''image''),
                                  (''value'', JStr ''https://via.placeholder.com/400x300''),
                                  (''title'', JStr ''Community Center'')]]\<rparr>,
      Created 1
        \<lparr>in_id = JStr ''pin3'', in_title = JStr ''Healthcare Clinic Expansion'',
         in_position_lat = JNum (511079 / 10000), in_position_lng = JNum (170385 / 10000),
         in_main_tag = JStr ''health'',
         in_content = JArr [JObj [(''type'', JStr ''pdf''),
                                  (''value'', JStr ''https://example.com/sample.pdf''),
                                  (''title'', JStr ''Project Documentation'')]]\<rparr>]"

definition unseeded_db :: database where
  "unseeded_db = seeded_db\<lparr>tbl_pins := [], tbl_pin_supporting_tags := []\<rparr>"

text \<open>
  The body of the client for a new pin with the empty title, and the body of an
  update of the title only.
\<close>

definition untitled_body :: jsval where
  "untitled_body =
     JObj [(''id'', JStr ''k3j9x0a7''), (''title'', JStr ''''),
           (''position'', JArr [JNum (521 / 10), JNum 19]), (''mainTag'', JStr ''health''),
           (''supportingTags'', JArr []),
           (''content'', JArr [JObj [(''type'', JStr ''text''),
                                     (''value'', JStr ''Open on weekdays from 8 to 16'')]])]"

definition retitle_body :: jsval where
  "retitle_body = JObj [(''title'', JStr ''Renovated'')]"

section \<open>Properties\<close>

subsection \<open>Filtered pins\<close>

text \<open>
  C1. For every pin collection and every filter set, the filtered-pins projection
  with an empty filter set is the whole pin collection; with a non-empty filter set
  it holds exactly the pins, in their order, whose main tag is in the filter set or
  one of whose supporting tags is in it. The function reading the stores computes
  the same list and leaves the state, so also the pin collection and the filter set,
  as it was.
\<close>

theorem filteredPins_spec:
  "filteredPins P [] = P \<and>
   (F \<noteq> [] \<longrightarrow>
      filteredPins P F = filter (\<lambda>p. mainTag p \<in> set F \<or> set (supportingTags p) \<inter> set F \<noteq> {}) P \<and>
      set (filteredPins P F) = {p \<in> set P. mainTag p \<in> set F \<or> set (supportingTags p) \<inter> set F \<noteq> {}}) \<and>
   fst (getFilteredPins s) = filteredPins (pins s) (filterTags s) \<and>
   snd (getFilteredPins s) = s"
proof -
  have inter: "\<And>p. array_some (supportingTags p) (\<lambda>tag. array_includes F tag) =
      (set (supportingTags p) \<inter> set F \<noteq> {})"
    by (auto simp: array_some_def array_includes_def list_ex_iff)
  have a: "filteredPins P [] = P"
    by (simp add: filteredPins_def)
  have b: "F \<noteq> [] \<Longrightarrow>
      filteredPins P F = filter (\<lambda>p. mainTag p \<in> set F \<or> set (supportingTags p) \<inter> set F \<noteq> {}) P"
    by (simp add: filteredPins_def inter array_includes_def)
  have c: "fst (getFilteredPins s) = filteredPins (pins s) (filterTags s)"
    by (simp add: getFilteredPins_def filteredPins_def Let_def)
  have d: "snd (getFilteredPins s) = s"
    by (simp add: getFilteredPins_def Let_def)
  from a b c d show ?thesis by auto
qed

theorem filteredPins_spec_witness:
  "[''health''] \<noteq> [] \<and>
   filteredPins [pin1, pin3] [] = [pin1, pin3] \<and>
   filteredPins [pin1, pin3] [''health''] = [pin3] \<and>
   set (filteredPins [pin1, pin3] [''health'']) = {pin3} \<and>
   snd (getFilteredPins loaded_store) = loaded_store"
  using filteredPins_spec [of "[pin1, pin3]" "[''health'']" loaded_store]
  by (simp add: pin1_def pin3_def)

subsection \<open>Client operations: the shared lemmas\<close>

lemmas client_defs = try_catch_finally_def pins_begin_def pins_catch_def pins_finally_def
  tags_begin_def tags_catch_def tags_finally_def boundary_begin_def boundary_catch_def
  boundary_finally_def settings_begin_def settings_catch_def settings_finally_def

lemmas outcome_defs = failing_def answered_404_def returned_def pins_failure_def
  tags_failure_def boundary_failure_def settings_failure_def fetched_value_def

lemmas part_defs = pins_part_def tags_part_def boundary_part_def settings_part_def

lemmas load_defs = loadPins_settle_def loadPins_try_def loadTags_settle_def loadTags_try_def
  loadRegionBoundary_settle_def loadRegionBoundary_try_def loadMapSettings_settle_def
  loadMapSettings_try_def

text \<open>What each operation leaves on a failing outcome, and its loading flag on every outcome.\<close>

lemma loadPins_fails: "failing f \<Longrightarrow> pins_failure s (loadPins True f s)"
  by (cases f) (simp_all add: client_defs outcome_defs loadPins_def load_defs)

lemma loadPins_clears: "\<not> isLoadingPins (snd (loadPins True f s))"
  by (cases f)
     (simp_all add: client_defs loadPins_def load_defs split: sum.splits option.splits)

lemma loadPins_returns: "returned (loadPins True f s)"
  by (cases f)
     (simp_all add: client_defs returned_def loadPins_def load_defs split: sum.splits option.splits)

lemma loadTags_fails: "failing f \<Longrightarrow> tags_failure s (loadTags True f s)"
  by (cases f) (simp_all add: client_defs outcome_defs loadTags_def load_defs)

lemma loadTags_clears: "\<not> isLoadingTags (snd (loadTags True f s))"
  by (cases f)
     (simp_all add: client_defs loadTags_def load_defs split: sum.splits option.splits)

lemma loadTags_returns: "returned (loadTags True f s)"
  by (cases f)
     (simp_all add: client_defs returned_def loadTags_def load_defs split: sum.splits option.splits)

lemma loadRegionBoundary_fails: "failing f \<Longrightarrow> \<not> answered_404 f \<Longrightarrow> boundary_failure s (loadRegionBoundary True f s)"
  by (cases f) (simp_all add: client_defs outcome_defs loadRegionBoundary_def load_defs)

lemma loadRegionBoundary_clears: "\<not> isLoadingBoundary (snd (loadRegionBoundary True f s))"
  by (cases f)
     (simp_all add: client_defs loadRegionBoundary_def load_defs split: sum.splits option.splits)

lemma loadRegionBoundary_returns: "returned (loadRegionBoundary True f s)"
  by (cases f)
     (simp_all add: client_defs returned_def loadRegionBoundary_def load_defs split: sum.splits option.splits)

lemma loadMapSettings_fails: "failing f \<Longrightarrow> \<not> answered_404 f \<Longrightarrow> settings_failure s (loadMapSettings True f s)"
  by (cases f) (simp_all add: client_defs outcome_defs loadMapSettings_def load_defs)

lemma loadMapSettings_clears: "\<not> isLoadingSettings (snd (loadMapSettings True f s))"
  by (cases f)
     (simp_all add: client_defs loadMapSettings_def load_defs split: sum.splits option.splits)

lemma loadMapSettings_returns: "returned (loadMapSettings True f s)"
  by (cases f)
     (simp_all add: client_defs returned_def loadMapSettings_def load_defs split: sum.splits option.splits)

lemma addPin_fails: "failing f \<Longrightarrow> pins_failure s (addPin True f s)"
  by (cases f) (simp_all add: client_defs outcome_defs addPin_def addPin_try_def)

lemma addPin_clears: "\<not> isLoadingPins (snd (addPin True f s))"
  by (cases f)
     (simp_all add: client_defs addPin_def addPin_try_def split: sum.splits option.splits)

lemma addPin_returns: "returned (addPin True f s)"
  by (cases f)
     (simp_all add: client_defs returned_def addPin_def addPin_try_def split: sum.splits option.splits)

lemma updatePin_fails: "failing f \<Longrightarrow> i \<noteq> [] \<Longrightarrow> pins_failure s (updatePin True i f s)"
  by (cases f) (simp_all add: client_defs outcome_defs updatePin_def updatePin_try_def)

lemma updatePin_clears: "i \<noteq> [] \<Longrightarrow> \<not> isLoadingPins (snd (updatePin True i f s))"
  by (cases f)
     (simp_all add: client_defs updatePin_def updatePin_try_def split: sum.splits option.splits)

lemma updatePin_returns: "i \<noteq> [] \<Longrightarrow> returned (updatePin True i f s)"
  by (cases f)
     (simp_all add: client_defs returned_def updatePin_def updatePin_try_def split: sum.splits option.splits)

lemma deletePin_fails: "failing f \<Longrightarrow> i \<noteq> [] \<Longrightarrow> pins_failure s (deletePin True i f s)"
  by (cases f) (simp_all add: client_defs outcome_defs deletePin_def deletePin_try_def Let_def)

lemma deletePin_clears: "i \<noteq> [] \<Longrightarrow> \<not> isLoadingPins (snd (deletePin True i f s))"
  by (cases f)
     (simp_all add: client_defs deletePin_def deletePin_try_def Let_def split: sum.splits option.splits)

lemma deletePin_returns: "i \<noteq> [] \<Longrightarrow> returned (deletePin True i f s)"
  by (cases f)
     (simp_all add: client_defs returned_def deletePin_def deletePin_try_def Let_def split: sum.splits option.splits)

lemma addTag_fails: "failing f \<Longrightarrow> name \<noteq> [] \<Longrightarrow> tags_failure s (addTag True name f s)"
  by (cases f) (simp_all add: client_defs outcome_defs addTag_def addTag_try_def)

lemma addTag_clears: "name \<noteq> [] \<Longrightarrow> \<not> isLoadingTags (snd (addTag True name f s))"
  by (cases f)
     (simp_all add: client_defs addTag_def addTag_try_def split: sum.splits option.splits)

lemma addTag_returns: "name \<noteq> [] \<Longrightarrow> returned (addTag True name f s)"
  by (cases f)
     (simp_all add: client_defs returned_def addTag_def addTag_try_def split: sum.splits option.splits)

lemma updateTag_fails: "failing f \<Longrightarrow> i \<noteq> [] \<Longrightarrow> tags_failure s (updateTag True i f s)"
  by (cases f) (simp_all add: client_defs outcome_defs updateTag_def updateTag_try_def)

lemma updateTag_clears: "i \<noteq> [] \<Longrightarrow> \<not> isLoadingTags (snd (updateTag True i f s))"
  by (cases f)
     (simp_all add: client_defs updateTag_def updateTag_try_def split: sum.splits option.splits)

lemma updateTag_returns: "i \<noteq> [] \<Longrightarrow> returned (updateTag True i f s)"
  by (cases f)
     (simp_all add: client_defs returned_def updateTag_def updateTag_try_def split: sum.splits option.splits)

lemma deleteTag_fails: "failing f \<Longrightarrow> i \<noteq> [] \<Longrightarrow> tags_failure s (deleteTag True i f s)"
  by (cases f) (simp_all add: client_defs outcome_defs deleteTag_def deleteTag_try_def)

lemma deleteTag_clears: "i \<noteq> [] \<Longrightarrow> \<not> isLoadingTags (snd (deleteTag True i f s))"
  by (cases f)
     (simp_all add: client_defs deleteTag_def deleteTag_try_def split: sum.splits option.splits)

lemma deleteTag_returns: "i \<noteq> [] \<Longrightarrow> returned (deleteTag True i f s)"
  by (cases f)
     (simp_all add: client_defs returned_def deleteTag_def deleteTag_try_def split: sum.splits option.splits)

lemma setRegionBoundary_fails: "failing f \<Longrightarrow> boundary_failure s (setRegionBoundary True (Some b) f s)"
  by (cases f) (simp_all add: client_defs outcome_defs setRegionBoundary_def setRegionBoundary_try_def)

lemma setRegionBoundary_clears: "\<not> isLoadingBoundary (snd (setRegionBoundary True (Some b) f s))"
  by (cases f)
     (simp_all add: client_defs setRegionBoundary_def setRegionBoundary_try_def split: sum.splits option.splits)

lemma setRegionBoundary_returns: "returned (setRegionBoundary True (Some b) f s)"
  by (cases f)
     (simp_all add: client_defs returned_def setRegionBoundary_def setRegionBoundary_try_def split: sum.splits option.splits)

lemma deleteRegionBoundary_fails: "failing f \<Longrightarrow> boundary_failure s (deleteRegionBoundary True f s)"
  by (cases f) (simp_all add: client_defs outcome_defs deleteRegionBoundary_def deleteRegionBoundary_try_def)

lemma deleteRegionBoundary_clears: "\<not> isLoadingBoundary (snd (deleteRegionBoundary True f s))"
  by (cases f)
     (simp_all add: client_defs deleteRegionBoundary_def deleteRegionBoundary_try_def split: sum.splits option.splits)

lemma deleteRegionBoundary_returns: "returned (deleteRegionBoundary True f s)"
  by (cases f)
     (simp_all add: client_defs returned_def deleteRegionBoundary_def deleteRegionBoundary_try_def split: sum.splits option.splits)

lemma updateMapSettings_fails: "failing f \<Longrightarrow> settings_failure s (updateMapSettings True (Some u) f s)"
  by (cases f) (simp_all add: client_defs outcome_defs updateMapSettings_def updateMapSettings_try_def)

lemma updateMapSettings_clears: "\<not> isLoadingSettings (snd (updateMapSettings True (Some u) f s))"
  by (cases f)
     (simp_all add: client_defs updateMapSettings_def updateMapSettings_try_def split: sum.splits option.splits)

lemma updateMapSettings_returns: "returned (updateMapSettings True (Some u) f s)"
  by (cases f)
     (simp_all add: client_defs returned_def updateMapSettings_def updateMapSettings_try_def split: sum.splits option.splits)

text \<open>A 404 answer to the two loads that read it as absence.\<close>

lemma loadRegionBoundary_404:
  "answered_404 f \<Longrightarrow>
   regionBoundary (snd (loadRegionBoundary True f s)) = None \<and>
   boundaryError (snd (loadRegionBoundary True f s)) = None"
  by (cases f) (simp_all add: client_defs outcome_defs loadRegionBoundary_def load_defs)

lemma loadMapSettings_404:
  "answered_404 f \<Longrightarrow>
   mapSettings (snd (loadMapSettings True f s)) = mapSettings s \<and>
   settingsError (snd (loadMapSettings True f s)) = None"
  by (cases f) (simp_all add: client_defs outcome_defs loadMapSettings_def load_defs)

text \<open>A load whose outcome carries a payload replaces the mirror and leaves no error.\<close>

lemma loadPins_success:
  "fetched_value f = Some v \<Longrightarrow> pins_part (snd (loadPins True f s)) = (v, None, False)"
  by (cases f)
     (auto simp: client_defs outcome_defs part_defs loadPins_def load_defs
           split: sum.splits if_splits)

lemma loadTags_success:
  "fetched_value f = Some v \<Longrightarrow> tags_part (snd (loadTags True f s)) = (v, None, False)"
  by (cases f)
     (auto simp: client_defs outcome_defs part_defs loadTags_def load_defs
           split: sum.splits if_splits)

lemma loadRegionBoundary_success:
  "fetched_value f = Some v \<Longrightarrow>
   boundary_part (snd (loadRegionBoundary True f s)) = (v, None, False)"
  by (cases f)
     (auto simp: client_defs outcome_defs part_defs ok_def loadRegionBoundary_def load_defs
           split: sum.splits if_splits)

lemma loadMapSettings_success:
  "fetched_value f = Some v \<Longrightarrow>
   settings_part (snd (loadMapSettings True f s)) = (v, None, False)"
  by (cases f)
     (auto simp: client_defs outcome_defs part_defs ok_def loadMapSettings_def load_defs
           split: sum.splits if_splits)

subsection \<open>Load-all: each collection ends as its own load leaves it\<close>

lemma settle_in_order_Cons_snd:
  "snd (settle_in_order (c # cs) fp ft fb fs s) =
   snd (settle_in_order cs fp ft fb fs (snd (settle c fp ft fb fs s)))"
  by (simp split: prod.splits)

lemma settle_in_order_Cons_fst:
  "fst (settle_in_order (c # cs) fp ft fb fs s) =
   fst (settle c fp ft fb fs s) #
   fst (settle_in_order cs fp ft fb fs (snd (settle c fp ft fb fs s)))"
  by (simp split: prod.splits)

lemma loadAllData_unfold:
  "loadAllData True order fp ft fb fs s =
   (promise_all (fst (settle_in_order order fp ft fb fs
        (settings_begin (boundary_begin (tags_begin (pins_begin s)))))),
    snd (settle_in_order order fp ft fb fs
        (settings_begin (boundary_begin (tags_begin (pins_begin s))))))"
  by (simp add: loadAllData_def split: prod.splits)

lemma settle_returns: "fst (settle c fp ft fb fs s) = Inr ()"
  by (cases c; cases fp; cases ft; cases fb; cases fs)
     (auto simp: settle_def client_defs load_defs split: sum.splits)

lemma settle_in_order_returns:
  "r \<in> set (fst (settle_in_order cs fp ft fb fs s)) \<Longrightarrow> r = Inr ()"
proof (induction cs arbitrary: s)
  case Nil
  then show ?case by simp
next
  case (Cons c cs)
  from Cons.prems have "r = fst (settle c fp ft fb fs s) \<or>
      r \<in> set (fst (settle_in_order cs fp ft fb fs (snd (settle c fp ft fb fs s))))"
    by (simp only: settle_in_order_Cons_fst list.set insert_iff)
  then show ?case
    using Cons.IH settle_returns by auto
qed

lemma promise_all_returns:
  assumes "\<And>r. r \<in> set rs \<Longrightarrow> r = Inr ()"
  shows "promise_all rs = Inr ()"
proof -
  have "\<not> (\<exists>x. x \<in> set rs \<and> isl x)"
    using assms by fastforce
  then have "List.find isl rs = None"
    by (simp add: find_None_iff)
  then show ?thesis
    by (simp add: promise_all_def)
qed

lemma loadAllData_returns: "returned (loadAllData True order fp ft fb fs s)"
  by (simp add: returned_def loadAllData_unfold promise_all_returns [OF settle_in_order_returns])

lemma loadPins_settle_cong:
  "pins_part s = pins_part t \<Longrightarrow>
   pins_part (snd (loadPins_settle fp s)) = pins_part (snd (loadPins_settle fp t))"
  by (cases fp) (auto simp: part_defs client_defs load_defs split: sum.splits)

lemma settle_pins_frame:
  "c \<noteq> PinsColl \<Longrightarrow> pins_part (snd (settle c fp ft fb fs s)) = pins_part s"
  by (cases c; cases ft; cases fb; cases fs)
     (auto simp: settle_def part_defs client_defs load_defs split: sum.splits)

lemma settle_in_order_pins_frame:
  "PinsColl \<notin> set cs \<Longrightarrow> pins_part (snd (settle_in_order cs fp ft fb fs s)) = pins_part s"
proof (induction cs arbitrary: s)
  case Nil
  then show ?case by simp
next
  case (Cons c cs)
  then have "c \<noteq> PinsColl" and rest: "PinsColl \<notin> set cs" by auto
  then have "pins_part (snd (settle c fp ft fb fs s)) = pins_part s"
    by (simp add: settle_pins_frame)
  with Cons.IH [OF rest] show ?case
    by (simp only: settle_in_order_Cons_snd)
qed

lemma settle_in_order_pins:
  "PinsColl \<in> set cs \<Longrightarrow> distinct cs \<Longrightarrow>
   pins_part (snd (settle_in_order cs fp ft fb fs s)) = pins_part (snd (loadPins_settle fp s))"
proof (induction cs arbitrary: s)
  case Nil
  then show ?case by simp
next
  case (Cons c cs)
  show ?case
  proof (cases "c = PinsColl")
    case True
    with Cons.prems have "PinsColl \<notin> set cs" by auto
    from settle_in_order_pins_frame [OF this] True show ?thesis
      by (simp only: settle_in_order_Cons_snd) (simp add: settle_def)
  next
    case False
    with Cons.prems have mem: "PinsColl \<in> set cs" and d: "distinct cs" by auto
    have "pins_part (snd (settle c fp ft fb fs s)) = pins_part s"
      using False by (simp add: settle_pins_frame)
    then have "pins_part (snd (loadPins_settle fp (snd (settle c fp ft fb fs s)))) =
        pins_part (snd (loadPins_settle fp s))"
      by (rule loadPins_settle_cong)
    with Cons.IH [OF mem d] show ?thesis
      by (simp only: settle_in_order_Cons_snd)
  qed
qed

lemma begin_pins_part:
  "pins_part (settings_begin (boundary_begin (tags_begin (pins_begin s)))) = pins_part (pins_begin s)"
  by (simp add: part_defs client_defs)

lemma loadAllData_pins:
  assumes "PinsColl \<in> set order" "distinct order"
  shows "pins_part (snd (loadAllData True order fp ft fb fs s)) =
         pins_part (snd (loadPins True fp s))"
proof -
  let ?s0 = "settings_begin (boundary_begin (tags_begin (pins_begin s)))"
  have "pins_part (snd (settle_in_order order fp ft fb fs ?s0)) =
        pins_part (snd (loadPins_settle fp ?s0))"
    using assms by (rule settle_in_order_pins)
  also have "\<dots> = pins_part (snd (loadPins_settle fp (pins_begin s)))"
    by (rule loadPins_settle_cong) (rule begin_pins_part)
  finally show ?thesis
    by (simp add: loadAllData_unfold loadPins_def)
qed

lemma loadTags_settle_cong:
  "tags_part s = tags_part t \<Longrightarrow>
   tags_part (snd (loadTags_settle ft s)) = tags_part (snd (loadTags_settle ft t))"
  by (cases ft) (auto simp: part_defs client_defs load_defs split: sum.splits)

lemma settle_tags_frame:
  "c \<noteq> TagsColl \<Longrightarrow> tags_part (snd (settle c fp ft fb fs s)) = tags_part s"
  by (cases c; cases fp; cases fb; cases fs)
     (auto simp: settle_def part_defs client_defs load_defs split: sum.splits)

lemma settle_in_order_tags_frame:
  "TagsColl \<notin> set cs \<Longrightarrow> tags_part (snd (settle_in_order cs fp ft fb fs s)) = tags_part s"
proof (induction cs arbitrary: s)
  case Nil
  then show ?case by simp
next
  case (Cons c cs)
  then have "c \<noteq> TagsColl" and rest: "TagsColl \<notin> set cs" by auto
  then have "tags_part (snd (settle c fp ft fb fs s)) = tags_part s"
    by (simp add: settle_tags_frame)
  with Cons.IH [OF rest] show ?case
    by (simp only: settle_in_order_Cons_snd)
qed

lemma settle_in_order_tags:
  "TagsColl \<in> set cs \<Longrightarrow> distinct cs \<Longrightarrow>
   tags_part (snd (settle_in_order cs fp ft fb fs s)) = tags_part (snd (loadTags_settle ft s))"
proof (induction cs arbitrary: s)
  case Nil
  then show ?case by simp
next
  case (Cons c cs)
  show ?case
  proof (cases "c = TagsColl")
    case True
    with Cons.prems have "TagsColl \<notin> set cs" by auto
    from settle_in_order_tags_frame [OF this] True show ?thesis
      by (simp only: settle_in_order_Cons_snd) (simp add: settle_def)
  next
    case False
    with Cons.prems have mem: "TagsColl \<in> set cs" and d: "distinct cs" by auto
    have "tags_part (snd (settle c fp ft fb fs s)) = tags_part s"
      using False by (simp add: settle_tags_frame)
    then have "tags_part (snd (loadTags_settle ft (snd (settle c fp ft fb fs s)))) =
        tags_part (snd (loadTags_settle ft s))"
      by (rule loadTags_settle_cong)
    with Cons.IH [OF mem d] show ?thesis
      by (simp only: settle_in_order_Cons_snd)
  qed
qed

lemma begin_tags_part:
  "tags_part (settings_begin (boundary_begin (tags_begin (pins_begin s)))) = tags_part (tags_begin s)"
  by (simp add: part_defs client_defs)

lemma loadAllData_tags:
  assumes "TagsColl \<in> set order" "distinct order"
  shows "tags_part (snd (loadAllData True order fp ft fb fs s)) =
         tags_part (snd (loadTags True ft s))"
proof -
  let ?s0 = "settings_begin (boundary_begin (tags_begin (pins_begin s)))"
  have "tags_part (snd (settle_in_order order fp ft fb fs ?s0)) =
        tags_part (snd (loadTags_settle ft ?s0))"
    using assms by (rule settle_in_order_tags)
  also have "\<dots> = tags_part (snd (loadTags_settle ft (tags_begin s)))"
    by (rule loadTags_settle_cong) (rule begin_tags_part)
  finally show ?thesis
    by (simp add: loadAllData_unfold loadTags_def)
qed

lemma loadRegionBoundary_settle_cong:
  "boundary_part s = boundary_part t \<Longrightarrow>
   boundary_part (snd (loadRegionBoundary_settle fb s)) = boundary_part (snd (loadRegionBoundary_settle fb t))"
  by (cases fb) (auto simp: part_defs client_defs load_defs split: sum.splits)

lemma settle_boundary_frame:
  "c \<noteq> BoundaryColl \<Longrightarrow> boundary_part (snd (settle c fp ft fb fs s)) = boundary_part s"
  by (cases c; cases fp; cases ft; cases fs)
     (auto simp: settle_def part_defs client_defs load_defs split: sum.splits)

lemma settle_in_order_boundary_frame:
  "BoundaryColl \<notin> set cs \<Longrightarrow> boundary_part (snd (settle_in_order cs fp ft fb fs s)) = boundary_part s"
proof (induction cs arbitrary: s)
  case Nil
  then show ?case by simp
next
  case (Cons c cs)
  then have "c \<noteq> BoundaryColl" and rest: "BoundaryColl \<notin> set cs" by auto
  then have "boundary_part (snd (settle c fp ft fb fs s)) = boundary_part s"
    by (simp add: settle_boundary_frame)
  with Cons.IH [OF rest] show ?case
    by (simp only: settle_in_order_Cons_snd)
qed

lemma settle_in_order_boundary:
  "BoundaryColl \<in> set cs \<Longrightarrow> distinct cs \<Longrightarrow>
   boundary_part (snd (settle_in_order cs fp ft fb fs s)) = boundary_part (snd (loadRegionBoundary_settle fb s))"
proof (induction cs arbitrary: s)
  case Nil
  then show ?case by simp
next
  case (Cons c cs)
  show ?case
  proof (cases "c = BoundaryColl")
    case True
    with Cons.prems have "BoundaryColl \<notin> set cs" by auto
    from settle_in_order_boundary_frame [OF this] True show ?thesis
      by (simp only: settle_in_order_Cons_snd) (simp add: settle_def)
  next
    case False
    with Cons.prems have mem: "BoundaryColl \<in> set cs" and d: "distinct cs" by auto
    have "boundary_part (snd (settle c fp ft fb fs s)) = boundary_part s"
      using False by (simp add: settle_boundary_frame)
    then have "boundary_part (snd (loadRegionBoundary_settle fb (snd (settle c fp ft fb fs s)))) =
        boundary_part (snd (loadRegionBoundary_settle fb s))"
      by (rule loadRegionBoundary_settle_cong)
    with Cons.IH [OF mem d] show ?thesis
      by (simp only: settle_in_order_Cons_snd)
  qed
qed

lemma begin_boundary_part:
  "boundary_part (settings_begin (boundary_begin (tags_begin (pins_begin s)))) = boundary_part (boundary_begin s)"
  by (simp add: part_defs client_defs)

lemma loadAllData_boundary:
  assumes "BoundaryColl \<in> set order" "distinct order"
  shows "boundary_part (snd (loadAllData True order fp ft fb fs s)) =
         boundary_part (snd (loadRegionBoundary True fb s))"
proof -
  let ?s0 = "settings_begin (boundary_begin (tags_begin (pins_begin s)))"
  have "boundary_part (snd (settle_in_order order fp ft fb fs ?s0)) =
        boundary_part (snd (loadRegionBoundary_settle fb ?s0))"
    using assms by (rule settle_in_order_boundary)
  also have "\<dots> = boundary_part (snd (loadRegionBoundary_settle fb (boundary_begin s)))"
    by (rule loadRegionBoundary_settle_cong) (rule begin_boundary_part)
  finally show ?thesis
    by (simp add: loadAllData_unfold loadRegionBoundary_def)
qed

lemma loadMapSettings_settle_cong:
  "settings_part s = settings_part t \<Longrightarrow>
   settings_part (snd (loadMapSettings_settle fs s)) = settings_part (snd (loadMapSettings_settle fs t))"
  by (cases fs) (auto simp: part_defs client_defs load_defs split: sum.splits)

lemma settle_settings_frame:
  "c \<noteq> SettingsColl \<Longrightarrow> settings_part (snd (settle c fp ft fb fs s)) = settings_part s"
  by (cases c; cases fp; cases ft; cases fb)
     (auto simp: settle_def part_defs client_defs load_defs split: sum.splits)

lemma settle_in_order_settings_frame:
  "SettingsColl \<notin> set cs \<Longrightarrow> settings_part (snd (settle_in_order cs fp ft fb fs s)) = settings_part s"
proof (induction cs arbitrary: s)
  case Nil
  then show ?case by simp
next
  case (Cons c cs)
  then have "c \<noteq> SettingsColl" and rest: "SettingsColl \<notin> set cs" by auto
  then have "settings_part (snd (settle c fp ft fb fs s)) = settings_part s"
    by (simp add: settle_settings_frame)
  with Cons.IH [OF rest] show ?case
    by (simp only: settle_in_order_Cons_snd)
qed

lemma settle_in_order_settings:
  "SettingsColl \<in> set cs \<Longrightarrow> distinct cs \<Longrightarrow>
   settings_part (snd (settle_in_order cs fp ft fb fs s)) = settings_part (snd (loadMapSettings_settle fs s))"
proof (induction cs arbitrary: s)
  case Nil
  then show ?case by simp
next
  case (Cons c cs)
  show ?case
  proof (cases "c = SettingsColl")
    case True
    with Cons.prems have "SettingsColl \<notin> set cs" by auto
    from settle_in_order_settings_frame [OF this] True show ?thesis
      by (simp only: settle_in_order_Cons_snd) (simp add: settle_def)
  next
    case False
    with Cons.prems have mem: "SettingsColl \<in> set cs" and d: "distinct cs" by auto
    have "settings_part (snd (settle c fp ft fb fs s)) = settings_part s"
      using False by (simp add: settle_settings_frame)
    then have "settings_part (snd (loadMapSettings_settle fs (snd (settle c fp ft fb fs s)))) =
        settings_part (snd (loadMapSettings_settle fs s))"
      by (rule loadMapSettings_settle_cong)
    with Cons.IH [OF mem d] show ?thesis
      by (simp only: settle_in_order_Cons_snd)
  qed
qed

lemma begin_settings_part:
  "settings_part (settings_begin (boundary_begin (tags_begin (pins_begin s)))) = settings_part (settings_begin s)"
  by (simp add: part_defs client_defs)

lemma loadAllData_settings:
  assumes "SettingsColl \<in> set order" "distinct order"
  shows "settings_part (snd (loadAllData True order fp ft fb fs s)) =
         settings_part (snd (loadMapSettings True fs s))"
proof -
  let ?s0 = "settings_begin (boundary_begin (tags_begin (pins_begin s)))"
  have "settings_part (snd (settle_in_order order fp ft fb fs ?s0)) =
        settings_part (snd (loadMapSettings_settle fs ?s0))"
    using assms by (rule settle_in_order_settings)
  also have "\<dots> = settings_part (snd (loadMapSettings_settle fs (settings_begin s)))"
    by (rule loadMapSettings_settle_cong) (rule begin_settings_part)
  finally show ?thesis
    by (simp add: loadAllData_unfold loadMapSettings_def)
qed

text \<open>The sample outcomes, and what a failure predicate says of the fields.\<close>

lemma answer_500_failing: "failing answer_500" "\<not> answered_404 answer_500"
  by (simp_all add: answer_500_def failing_def answered_404_def ok_def)

lemma answer_404_answered: "answered_404 answer_404" "failing answer_404"
  by (simp_all add: answer_404_def failing_def answered_404_def ok_def)

lemma answer_200_value: "fetched_value (answer_200 v) = Some v"
  by (simp add: answer_200_def fetched_value_def ok_def)

lemma failure_part:
  "pins_failure s out \<Longrightarrow> pins (snd out) = pins s \<and> pinsError (snd out) \<noteq> None"
  "tags_failure s out \<Longrightarrow> tags (snd out) = tags s \<and> tagsError (snd out) \<noteq> None"
  "boundary_failure s out \<Longrightarrow>
     regionBoundary (snd out) = regionBoundary s \<and> boundaryError (snd out) \<noteq> None"
  "settings_failure s out \<Longrightarrow>
     mapSettings (snd out) = mapSettings s \<and> settingsError (snd out) \<noteq> None"
  by (simp_all add: outcome_defs)

subsection \<open>Failure handling of the client operations\<close>

text \<open>
  C8, as stated, fails on the boundary load. A 404 answer is a response whose \<open>ok\<close>
  is false, so it is one of the claim's failing outcomes; the load answers it by
  setting the boundary mirror to \<open>null\<close> and returning with no error message. With
  the sample boundary in the mirror, the mirror changes and no error is set.
\<close>

theorem load_404_counterexample:
  "failing (answer_404 :: RegionBoundary option fetched) \<and>
   regionBoundary loaded_store = Some poland \<and>
   regionBoundary (snd (loadRegionBoundary True answer_404 loaded_store)) = None \<and>
   boundaryError (snd (loadRegionBoundary True answer_404 loaded_store)) = None \<and>
   \<not> boundary_failure loaded_store (loadRegionBoundary True answer_404 loaded_store)"
  by (simp add: answer_404_def loaded_store_def initial_store_def client_defs outcome_defs ok_def
        loadRegionBoundary_def load_defs)

text \<open>
  C8, amended. With the code running in the browser and a call really made (a
  non-empty id or name, an argument that is not \<open>null\<close>): on every failing outcome
  (a rejected call or a response that is not \<open>ok\<close>), other than a 404 answer to the
  boundary load or to the settings load, each of the four loads and each of the
  nine mutations returns without throwing, leaves the mirror of its collection as it
  was, and sets the error message of its collection. On a 404 answer the boundary
  load sets the boundary mirror to absent and the settings load leaves the settings
  mirror as it was, both returning with no error message. On every outcome, success
  or failure, each of the thirteen operations leaves the loading flag of its
  collection off.
\<close>

theorem client_failure_handling:
  "(failing lp \<longrightarrow> pins_failure s (loadPins True lp s)) \<and>
   (failing lt \<longrightarrow> tags_failure s (loadTags True lt s)) \<and>
   (failing lb \<and> \<not> answered_404 lb \<longrightarrow> boundary_failure s (loadRegionBoundary True lb s)) \<and>
   (failing ls \<and> \<not> answered_404 ls \<longrightarrow> settings_failure s (loadMapSettings True ls s)) \<and>
   (answered_404 lb \<longrightarrow>
      returned (loadRegionBoundary True lb s) \<and>
      regionBoundary (snd (loadRegionBoundary True lb s)) = None \<and>
      boundaryError (snd (loadRegionBoundary True lb s)) = None) \<and>
   (answered_404 ls \<longrightarrow>
      returned (loadMapSettings True ls s) \<and>
      mapSettings (snd (loadMapSettings True ls s)) = mapSettings s \<and>
      settingsError (snd (loadMapSettings True ls s)) = None) \<and>
   (failing ap \<longrightarrow> pins_failure s (addPin True ap s)) \<and>
   (failing up \<and> i \<noteq> [] \<longrightarrow> pins_failure s (updatePin True i up s)) \<and>
   (failing dp \<and> i \<noteq> [] \<longrightarrow> pins_failure s (deletePin True i dp s)) \<and>
   (failing atg \<and> name \<noteq> [] \<longrightarrow> tags_failure s (addTag True name atg s)) \<and>
   (failing ut \<and> i \<noteq> [] \<longrightarrow> tags_failure s (updateTag True i ut s)) \<and>
   (failing dt \<and> i \<noteq> [] \<longrightarrow> tags_failure s (deleteTag True i dt s)) \<and>
   (failing sb \<longrightarrow> boundary_failure s (setRegionBoundary True (Some b) sb s)) \<and>
   (failing db \<longrightarrow> boundary_failure s (deleteRegionBoundary True db s)) \<and>
   (failing us \<longrightarrow> settings_failure s (updateMapSettings True (Some u) us s)) \<and>
   \<not> isLoadingPins (snd (loadPins True lp s)) \<and>
   \<not> isLoadingTags (snd (loadTags True lt s)) \<and>
   \<not> isLoadingBoundary (snd (loadRegionBoundary True lb s)) \<and>
   \<not> isLoadingSettings (snd (loadMapSettings True ls s)) \<and>
   \<not> isLoadingPins (snd (addPin True ap s)) \<and>
   (i \<noteq> [] \<longrightarrow> \<not> isLoadingPins (snd (updatePin True i up s)) \<and>
                \<not> isLoadingPins (snd (deletePin True i dp s)) \<and>
                \<not> isLoadingTags (snd (updateTag True i ut s)) \<and>
                \<not> isLoadingTags (snd (deleteTag True i dt s))) \<and>
   (name \<noteq> [] \<longrightarrow> \<not> isLoadingTags (snd (addTag True name atg s))) \<and>
   \<not> isLoadingBoundary (snd (setRegionBoundary True (Some b) sb s)) \<and>
   \<not> isLoadingBoundary (snd (deleteRegionBoundary True db s)) \<and>
   \<not> isLoadingSettings (snd (updateMapSettings True (Some u) us s))"
  by (intro conjI impI; (elim conjE)?)
     (simp_all add: loadPins_fails loadTags_fails loadRegionBoundary_fails loadMapSettings_fails
        loadRegionBoundary_404 loadMapSettings_404 loadRegionBoundary_returns
        loadMapSettings_returns addPin_fails updatePin_fails deletePin_fails addTag_fails
        updateTag_fails deleteTag_fails setRegionBoundary_fails deleteRegionBoundary_fails
        updateMapSettings_fails loadPins_clears loadTags_clears loadRegionBoundary_clears
        loadMapSettings_clears addPin_clears updatePin_clears deletePin_clears addTag_clears
        updateTag_clears deleteTag_clears setRegionBoundary_clears deleteRegionBoundary_clears
        updateMapSettings_clears)

theorem client_failure_handling_witness:
  "failing (answer_500 :: Pin list fetched) \<and>
   \<not> answered_404 (answer_500 :: Pin list fetched) \<and>
   answered_404 (answer_404 :: MapSettings fetched) \<and>
   ''pin1'' \<noteq> [] \<and> ''health'' \<noteq> [] \<and>
   pins_failure loaded_store (loadPins True answer_500 loaded_store) \<and>
   tags_failure loaded_store (loadTags True answer_500 loaded_store) \<and>
   boundary_failure loaded_store (loadRegionBoundary True answer_500 loaded_store) \<and>
   settings_failure loaded_store (loadMapSettings True answer_500 loaded_store) \<and>
   pins_failure loaded_store (addPin True answer_500 loaded_store) \<and>
   pins_failure loaded_store (updatePin True ''pin1'' answer_500 loaded_store) \<and>
   pins_failure loaded_store (deletePin True ''pin1'' (answer_500 :: unit fetched) loaded_store) \<and>
   tags_failure loaded_store (addTag True ''health'' answer_500 loaded_store) \<and>
   tags_failure loaded_store (updateTag True ''pin1'' answer_500 loaded_store) \<and>
   tags_failure loaded_store (deleteTag True ''pin1'' (answer_500 :: unit fetched) loaded_store) \<and>
   boundary_failure loaded_store (setRegionBoundary True (Some poland) answer_500 loaded_store) \<and>
   boundary_failure loaded_store (deleteRegionBoundary True (answer_500 :: unit fetched) loaded_store) \<and>
   settings_failure loaded_store (updateMapSettings True (Some poland) answer_500 loaded_store) \<and>
   pinsError (snd (loadPins True answer_500 loaded_store)) =
     Some ''Failed to load pins: Internal Server Error'' \<and>
   pins (snd (loadPins True answer_500 loaded_store)) = [pin1, pin3]"
proof -
  have h: "pinsError (snd (loadPins True answer_500 loaded_store)) =
        Some ''Failed to load pins: Internal Server Error'' \<and>
      pins (snd (loadPins True answer_500 loaded_store)) = [pin1, pin3]"
    by (simp add: answer_500_def loaded_store_def initial_store_def client_defs ok_def
          toErrorMessage_def loadPins_def load_defs)
  show ?thesis
    using client_failure_handling [where s = loaded_store and lp = answer_500 and lt = answer_500
        and lb = answer_500 and ls = answer_500 and ap = answer_500 and up = answer_500
        and dp = "answer_500 :: unit fetched" and atg = answer_500 and ut = answer_500
        and dt = "answer_500 :: unit fetched" and sb = answer_500
        and db = "answer_500 :: unit fetched" and us = answer_500 and i = "''pin1''"
        and name = "''health''" and b = poland and u = poland]
      h
    by (simp add: answer_500_failing answer_404_answered)
qed

subsection \<open>Load-all with one failing endpoint\<close>

text \<open>
  C9, as stated, fails when the one failing endpoint is the boundary's and its
  answer is a 404: the three other collections are refreshed, but the boundary load
  reads the 404 as absence, so the boundary mirror is set to \<open>null\<close> and the
  boundary error stays unset; no error flag at all is set.
\<close>

theorem loadAllData_404_counterexample:
  "failing (answer_404 :: RegionBoundary option fetched) \<and>
   fetched_value (answer_200 [pin3]) = Some [pin3] \<and>
   fetched_value (answer_200 (tags initial_store)) = Some (tags initial_store) \<and>
   fetched_value (answer_200 (mapSettings initial_store)) = Some (mapSettings initial_store) \<and>
   regionBoundary loaded_store = Some poland \<and>
   regionBoundary (snd (loadAllData True [PinsColl, TagsColl, BoundaryColl, SettingsColl]
      (answer_200 [pin3]) (answer_200 (tags initial_store)) answer_404
      (answer_200 (mapSettings initial_store)) loaded_store)) = None \<and>
   boundaryError (snd (loadAllData True [PinsColl, TagsColl, BoundaryColl, SettingsColl]
      (answer_200 [pin3]) (answer_200 (tags initial_store)) answer_404
      (answer_200 (mapSettings initial_store)) loaded_store)) = None"
proof -
  have "boundary_part (snd (loadAllData True [PinsColl, TagsColl, BoundaryColl, SettingsColl]
      (answer_200 [pin3]) (answer_200 (tags initial_store)) answer_404
      (answer_200 (mapSettings initial_store)) loaded_store)) =
      boundary_part (snd (loadRegionBoundary True answer_404 loaded_store))"
    by (rule loadAllData_boundary) simp_all
  moreover have "regionBoundary (snd (loadRegionBoundary True answer_404 loaded_store)) = None \<and>
      boundaryError (snd (loadRegionBoundary True answer_404 loaded_store)) = None"
    by (rule loadRegionBoundary_404) (rule answer_404_answered)
  moreover have "regionBoundary loaded_store = Some poland"
    by (simp add: loaded_store_def)
  ultimately show ?thesis
    by (simp add: part_defs answer_200_value answer_404_answered)
qed

text \<open>
  C9, amended. Load-all, run in the browser with the four answers arriving in any
  order, returns without throwing whatever each load met, and leaves every loading
  flag off. Each collection ends as its own load leaves it: a collection whose
  answer carried a payload has its mirror replaced by that payload and no error; a
  collection whose endpoint failed with a rejected call, or with a response that is
  not \<open>ok\<close> and, for the boundary and the settings, is not a 404, keeps its mirror
  and has its error message set; on a 404 the boundary mirror becomes absent and the
  settings mirror stays, with no error message. So when exactly one endpoint fails
  in that way, for instance the boundary with a 500, and the three others succeed,
  the three other mirrors are the fetched values and the only error set is the
  failing collection's.
\<close>

theorem loadAllData_one_failure:
  assumes "distinct order"
    and "set order = {PinsColl, TagsColl, BoundaryColl, SettingsColl}"
    and "s' = snd (loadAllData True order fp ft fb fs s)"
  shows "returned (loadAllData True order fp ft fb fs s) \<and>
    \<not> isLoadingPins s' \<and> \<not> isLoadingTags s' \<and> \<not> isLoadingBoundary s' \<and>
    \<not> isLoadingSettings s' \<and>
    (fetched_value fp = Some vp \<longrightarrow> pins s' = vp \<and> pinsError s' = None) \<and>
    (fetched_value ft = Some vt \<longrightarrow> tags s' = vt \<and> tagsError s' = None) \<and>
    (fetched_value fb = Some vb \<longrightarrow> regionBoundary s' = vb \<and> boundaryError s' = None) \<and>
    (fetched_value fs = Some vs \<longrightarrow> mapSettings s' = vs \<and> settingsError s' = None) \<and>
    (failing fp \<longrightarrow> pins s' = pins s \<and> pinsError s' \<noteq> None) \<and>
    (failing ft \<longrightarrow> tags s' = tags s \<and> tagsError s' \<noteq> None) \<and>
    (failing fb \<and> \<not> answered_404 fb \<longrightarrow>
       regionBoundary s' = regionBoundary s \<and> boundaryError s' \<noteq> None) \<and>
    (failing fs \<and> \<not> answered_404 fs \<longrightarrow>
       mapSettings s' = mapSettings s \<and> settingsError s' \<noteq> None) \<and>
    (answered_404 fb \<longrightarrow> regionBoundary s' = None \<and> boundaryError s' = None) \<and>
    (answered_404 fs \<longrightarrow> mapSettings s' = mapSettings s \<and> settingsError s' = None)"
proof -
  have p: "pins_part s' = pins_part (snd (loadPins True fp s))"
    using assms by (simp add: loadAllData_pins)
  have t: "tags_part s' = tags_part (snd (loadTags True ft s))"
    using assms by (simp add: loadAllData_tags)
  have b: "boundary_part s' = boundary_part (snd (loadRegionBoundary True fb s))"
    using assms by (simp add: loadAllData_boundary)
  have g: "settings_part s' = settings_part (snd (loadMapSettings True fs s))"
    using assms by (simp add: loadAllData_settings)
  have flags: "\<not> isLoadingPins s' \<and> \<not> isLoadingTags s' \<and> \<not> isLoadingBoundary s' \<and>
      \<not> isLoadingSettings s'"
    using p t b g loadPins_clears [of fp s] loadTags_clears [of ft s]
      loadRegionBoundary_clears [of fb s] loadMapSettings_clears [of fs s]
    by (simp add: part_defs)
  have okp: "fetched_value fp = Some vp \<Longrightarrow> pins s' = vp \<and> pinsError s' = None"
    using p loadPins_success [of fp vp s] by (simp add: part_defs)
  have okt: "fetched_value ft = Some vt \<Longrightarrow> tags s' = vt \<and> tagsError s' = None"
    using t loadTags_success [of ft vt s] by (simp add: part_defs)
  have okb: "fetched_value fb = Some vb \<Longrightarrow> regionBoundary s' = vb \<and> boundaryError s' = None"
    using b loadRegionBoundary_success [of fb vb s] by (simp add: part_defs)
  have oks: "fetched_value fs = Some vs \<Longrightarrow> mapSettings s' = vs \<and> settingsError s' = None"
    using g loadMapSettings_success [of fs vs s] by (simp add: part_defs)
  have nop: "failing fp \<Longrightarrow> pins s' = pins s \<and> pinsError s' \<noteq> None"
    using p failure_part(1) [OF loadPins_fails, of fp s] by (simp add: part_defs)
  have notg: "failing ft \<Longrightarrow> tags s' = tags s \<and> tagsError s' \<noteq> None"
    using t failure_part(2) [OF loadTags_fails, of ft s] by (simp add: part_defs)
  have nob: "failing fb \<Longrightarrow> \<not> answered_404 fb \<Longrightarrow>
      regionBoundary s' = regionBoundary s \<and> boundaryError s' \<noteq> None"
    using b failure_part(3) [OF loadRegionBoundary_fails, of fb s] by (simp add: part_defs)
  have nos: "failing fs \<Longrightarrow> \<not> answered_404 fs \<Longrightarrow>
      mapSettings s' = mapSettings s \<and> settingsError s' \<noteq> None"
    using g failure_part(4) [OF loadMapSettings_fails, of fs s] by (simp add: part_defs)
  have absb: "answered_404 fb \<Longrightarrow> regionBoundary s' = None \<and> boundaryError s' = None"
    using b loadRegionBoundary_404 [of fb s] by (simp add: part_defs)
  have abss: "answered_404 fs \<Longrightarrow> mapSettings s' = mapSettings s \<and> settingsError s' = None"
    using g loadMapSettings_404 [of fs s] by (simp add: part_defs)
  from loadAllData_returns flags okp okt okb oks nop notg nob nos absb abss show ?thesis
    by (intro conjI impI; (elim conjE)?) simp_all
qed

theorem loadAllData_one_failure_witness:
  "distinct [TagsColl, SettingsColl, BoundaryColl, PinsColl] \<and>
   set [TagsColl, SettingsColl, BoundaryColl, PinsColl] =
     {PinsColl, TagsColl, BoundaryColl, SettingsColl} \<and>
   fetched_value (answer_200 [pin3]) = Some [pin3] \<and>
   failing (answer_500 :: RegionBoundary option fetched) \<and>
   \<not> answered_404 (answer_500 :: RegionBoundary option fetched) \<and>
   returned (loadAllData True [TagsColl, SettingsColl, BoundaryColl, PinsColl]
      (answer_200 [pin3]) (answer_200 []) answer_500 (answer_200 (mapSettings initial_store))
      loaded_store) \<and>
   pins (snd (loadAllData True [TagsColl, SettingsColl, BoundaryColl, PinsColl]
      (answer_200 [pin3]) (answer_200 []) answer_500 (answer_200 (mapSettings initial_store))
      loaded_store)) = [pin3] \<and>
   tags (snd (loadAllData True [TagsColl, SettingsColl, BoundaryColl, PinsColl]
      (answer_200 [pin3]) (answer_200 []) answer_500 (answer_200 (mapSettings initial_store))
      loaded_store)) = [] \<and>
   regionBoundary (snd (loadAllData True [TagsColl, SettingsColl, BoundaryColl, PinsColl]
      (answer_200 [pin3]) (answer_200 []) answer_500 (answer_200 (mapSettings initial_store))
      loaded_store)) = Some poland \<and>
   pinsError (snd (loadAllData True [TagsColl, SettingsColl, BoundaryColl, PinsColl]
      (answer_200 [pin3]) (answer_200 []) answer_500 (answer_200 (mapSettings initial_store))
      loaded_store)) = None \<and>
   tagsError (snd (loadAllData True [TagsColl, SettingsColl, BoundaryColl, PinsColl]
      (answer_200 [pin3]) (answer_200 []) answer_500 (answer_200 (mapSettings initial_store))
      loaded_store)) = None \<and>
   settingsError (snd (loadAllData True [TagsColl, SettingsColl, BoundaryColl, PinsColl]
      (answer_200 [pin3]) (answer_200 []) answer_500 (answer_200 (mapSettings initial_store))
      loaded_store)) = None \<and>
   boundaryError (snd (loadAllData True [TagsColl, SettingsColl, BoundaryColl, PinsColl]
      (answer_200 [pin3]) (answer_200 []) answer_500 (answer_200 (mapSettings initial_store))
      loaded_store)) \<noteq> None"
proof -
  have d: "distinct [TagsColl, SettingsColl, BoundaryColl, PinsColl]"
    by simp
  have e: "set [TagsColl, SettingsColl, BoundaryColl, PinsColl] =
      {PinsColl, TagsColl, BoundaryColl, SettingsColl}"
    by auto
  have r: "regionBoundary loaded_store = Some poland"
    by (simp add: loaded_store_def)
  show ?thesis
    using loadAllData_one_failure [OF d e refl, where fp = "answer_200 [pin3]"
        and ft = "answer_200 []" and fb = answer_500
        and fs = "answer_200 (mapSettings initial_store)" and s = loaded_store
        and vp = "[pin3]" and vt = "[]" and vs = "mapSettings initial_store"] d e r
    by (simp add: answer_200_value answer_500_failing)
qed

subsection \<open>Server: the shared lemmas\<close>

lemmas reply_defs = json_reply_def json_status_def error_body_def catch_500_def

lemma filter_unique_key:
  "distinct (map f xs) \<Longrightarrow> x \<in> set xs \<Longrightarrow> filter (\<lambda>y. f y = f x) xs = [x]"
proof (induction xs)
  case Nil
  then show ?case by simp
next
  case (Cons a xs)
  show ?case
  proof (cases "a = x")
    case True
    with Cons.prems have "\<forall>y \<in> set xs. f y \<noteq> f x" by (metis distinct.simps(2) image_eqI list.simps(9) list.set_map)
    then have "filter (\<lambda>y. f y = f x) xs = []" by (simp add: filter_empty_conv)
    with True show ?thesis by simp
  next
    case False
    with Cons.prems have "x \<in> set xs" and "distinct (map f xs)" and "f a \<noteq> f x"
      by auto
    with Cons.IH show ?thesis by simp
  qed
qed

lemma tag_in_use_checks:
  "tag_in_use name db \<Longrightarrow>
   list_ex (\<lambda>row. main_tag row = name) (tbl_pins db) \<or>
   list_ex (\<lambda>row. tag_name row = name) (tbl_pin_supporting_tags db)"
  by (auto simp: tag_in_use_def pin_references_def list_ex_iff)

lemma tag_unused_checks:
  "supporting_tags_have_pins db \<Longrightarrow> \<not> tag_in_use name db \<Longrightarrow>
   \<not> list_ex (\<lambda>row. main_tag row = name) (tbl_pins db) \<and>
   \<not> list_ex (\<lambda>row. tag_name row = name) (tbl_pin_supporting_tags db)"
  unfolding tag_in_use_def pin_references_def supporting_tags_have_pins_def list_ex_iff
    list_all_iff
  by metis

subsection \<open>Deleting a tag\<close>

text \<open>
  C2. For every tag row of the store and every DELETE request on its id (the path
  parameter is not empty, and ids of tag rows are unique, as the primary key has
  it): if at least one pin references the name of the tag, as its main tag or by one
  of its supporting-tag rows, the reply is the client error 400 and the database is
  unchanged, so no tag row is removed; if no pin references the name (every
  supporting-tag row belonging to a pin, as the foreign key has it), the reply is a
  success and the tag row is deleted, nothing else changing.
\<close>

theorem DELETE_tag_guarded:
  assumes "i \<noteq> []" and "tag \<in> set (tbl_tags db)" and "t_id tag = JStr i"
    and "tag_ids_unique db"
  shows "(tag_in_use (t_name tag) db \<longrightarrow>
            reply_status (fst (DELETE_tag i db)) = 400 \<and> snd (DELETE_tag i db) = db) \<and>
         (supporting_tags_have_pins db \<and> \<not> tag_in_use (t_name tag) db \<longrightarrow>
            fst (DELETE_tag i db) = json_reply (JObj [(''success'', JBool True)]) \<and>
            snd (DELETE_tag i db) =
              db\<lparr>tbl_tags := filter (\<lambda>row. t_id row \<noteq> JStr i) (tbl_tags db)\<rparr> \<and>
            tag \<notin> set (tbl_tags (snd (DELETE_tag i db))))"
proof -
  have found: "filter (\<lambda>row. t_id row = JStr i) (tbl_tags db) = [tag]"
    using filter_unique_key [of t_id "tbl_tags db" tag] assms by (simp add: tag_ids_unique_def)
  have used: "tag_in_use (t_name tag) db \<Longrightarrow>
      reply_status (fst (DELETE_tag i db)) = 400 \<and> snd (DELETE_tag i db) = db"
    using tag_in_use_checks [of "t_name tag" db] assms(1) found
    by (auto simp: DELETE_tag_def DELETE_tag_try_def reply_defs)
  have unused: "supporting_tags_have_pins db \<Longrightarrow> \<not> tag_in_use (t_name tag) db \<Longrightarrow>
      fst (DELETE_tag i db) = json_reply (JObj [(''success'', JBool True)]) \<and>
      snd (DELETE_tag i db) = db\<lparr>tbl_tags := filter (\<lambda>row. t_id row \<noteq> JStr i) (tbl_tags db)\<rparr>"
    using tag_unused_checks [of db "t_name tag"] assms(1) found
    by (simp add: DELETE_tag_def DELETE_tag_try_def db_deleteTag_def)
  from used unused assms(3) show ?thesis
    by auto
qed

theorem DELETE_tag_guarded_witness:
  "''3'' \<noteq> [] \<and> tag_ids_unique seeded_db \<and> supporting_tags_have_pins seeded_db \<and>
   tag_in_use (JStr ''health'') seeded_db \<and>
   reply_status (fst (DELETE_tag ''3'' seeded_db)) = 400 \<and>
   snd (DELETE_tag ''3'' seeded_db) = seeded_db \<and>
   tag_in_use (JStr ''education'') seeded_db \<and>
   reply_status (fst (DELETE_tag ''4'' seeded_db)) = 400 \<and>
   snd (DELETE_tag ''4'' seeded_db) = seeded_db \<and>
   \<not> tag_in_use (JStr ''environment'') seeded_db \<and>
   reply_status (fst (DELETE_tag ''2'' seeded_db)) = 200 \<and>
   map t_name (tbl_tags (snd (DELETE_tag ''2'' seeded_db))) =
     [JStr ''culture'', JStr ''health'', JStr ''education'', JStr ''infrastructure'',
      JStr ''community'']"
proof -
  have u: "tag_ids_unique seeded_db" and f: "supporting_tags_have_pins seeded_db"
    by (simp_all add: seeded_db_def tag_ids_unique_def supporting_tags_have_pins_def)
  have m: "\<lparr>t_id = JStr ''3'', t_name = JStr ''health'', t_color = JStr ''#3357FF''\<rparr>
      \<in> set (tbl_tags seeded_db)"
    "\<lparr>t_id = JStr ''4'', t_name = JStr ''education'', t_color = JStr ''#F033FF''\<rparr>
      \<in> set (tbl_tags seeded_db)"
    "\<lparr>t_id = JStr ''2'', t_name = JStr ''environment'', t_color = JStr ''#33FF57''\<rparr>
      \<in> set (tbl_tags seeded_db)"
    by (simp_all add: seeded_db_def)
  have use: "tag_in_use (JStr ''health'') seeded_db" "tag_in_use (JStr ''education'') seeded_db"
    "\<not> tag_in_use (JStr ''environment'') seeded_db"
    by (simp_all add: seeded_db_def tag_in_use_def pin_references_def)
  have n: "''3'' \<noteq> []" "''4'' \<noteq> []" "''2'' \<noteq> []" by simp_all
  from DELETE_tag_guarded [OF n(1) m(1) _ u] DELETE_tag_guarded [OF n(2) m(2) _ u]
    DELETE_tag_guarded [OF n(3) m(3) _ u] u f use
  show ?thesis
    by (simp add: json_reply_def) (simp add: seeded_db_def)
qed

subsection \<open>Creating a tag whose name is taken\<close>

text \<open>
  C3. The claim is that a POST to /api/tags with the name of a stored tag is
  answered 409 and leaves the stored row as it was. The route has the 409 answer,
  in its \<open>catch\<close> clause, for a thrown duplicate-key error; \<open>createTag\<close> never
  throws one for a name, since its statement updates the color of the row of that
  name. On the seeded database, posting the name \<open>health\<close> with the color
  \<open>#000000\<close> is answered 201 with the stored row, whose color is now the posted one.
\<close>

theorem POST_tags_existing_name:
  "POST_tags ''abc123'' (Inr (JObj [(''name'', JStr ''health''), (''color'', JStr ''#000000'')]))
     seeded_db =
   (\<lparr>reply_status = 201,
     reply_body = JObj [(''id'', JStr ''3''), (''name'', JStr ''health''),
                        (''color'', JStr ''#000000'')]\<rparr>,
    seeded_db\<lparr>tbl_tags :=
      [\<lparr>t_id = JStr ''1'', t_name = JStr ''culture'', t_color = JStr ''#FF5733''\<rparr>,
       \<lparr>t_id = JStr ''2'', t_name = JStr ''environment'', t_color = JStr ''#33FF57''\<rparr>,
       \<lparr>t_id = JStr ''3'', t_name = JStr ''health'', t_color = JStr ''#000000''\<rparr>,
       \<lparr>t_id = JStr ''4'', t_name = JStr ''education'', t_color = JStr ''#F033FF''\<rparr>,
       \<lparr>t_id = JStr ''5'', t_name = JStr ''infrastructure'', t_color = JStr ''#FF9933''\<rparr>,
       \<lparr>t_id = JStr ''6'', t_name = JStr ''community'', t_color = JStr ''#33FFF9''\<rparr>]\<rparr>)"
  by (simp add: POST_tags_def POST_tags_try_def createTag_def field_def js_or_def is_null_def
        seeded_db_def tag_reply_body_def reply_defs Let_def)

subsection \<open>Validation of request bodies\<close>

text \<open>The facts about the routes that the statements on bodies share.\<close>

lemmas POST_pins_defs = POST_pins_def POST_pins_try_def POST_pins_input_def
  POST_pins_position_def POST_pins_supporting_def POST_pins_reply_def














subsection \<open>Setting the region boundary\<close>

lemma db_setRegionBoundary_success:
  assumes "db_setRegionBoundary boundary db = (Inr rows, db')"
  shows "tbl_region_boundaries db' =
           [\<lparr>b_id = Suc (region_boundaries_id_seq db), b_name = in_name boundary,
             b_coordinates = in_coordinates boundary, min_zoom = in_min_zoom boundary,
             max_zoom = in_max_zoom boundary\<rparr>] \<and>
         rows = tbl_region_boundaries db'"
  using assms
  by (auto simp: db_setRegionBoundary_def Let_def split: if_splits)

lemma PUT_boundary_success:
  assumes "reply_status (fst (PUT_boundary (Inr data) db)) = 200"
  shows "\<exists>rows. db_setRegionBoundary
            \<lparr>in_name = field data ''name'', in_coordinates = field data ''coordinates'',
             in_min_zoom = js_or (field data ''minZoom'') (JNum 5),
             in_max_zoom = js_or (field data ''maxZoom'') (JNum 18)\<rparr> db =
          (Inr rows, snd (PUT_boundary (Inr data) db))"
  using assms
  by (auto simp: PUT_boundary_def PUT_boundary_try_def reply_defs Let_def
      split: if_splits prod.splits sum.splits list.splits)

text \<open>
  C5. For every database and every set-boundary operation that succeeds, the table
  of boundaries afterwards holds exactly one row, and its name, coordinates and
  zoom range are the values the operation was given; that row is what reading the
  boundary returns. Setting a boundary twice in sequence leaves exactly one row,
  with the values of the second. For the PUT route answered 200 the one row has
  the name and the coordinates of the body, and its zoom range is the body's, 5
  and 18 standing in for a value that is missing or zero.
\<close>

theorem setRegionBoundary_single:
  "(db_setRegionBoundary boundary db = (Inr rows, db1) \<longrightarrow>
      tbl_region_boundaries db1 =
        [\<lparr>b_id = Suc (region_boundaries_id_seq db), b_name = in_name boundary,
          b_coordinates = in_coordinates boundary, min_zoom = in_min_zoom boundary,
          max_zoom = in_max_zoom boundary\<rparr>] \<and>
      rows = tbl_region_boundaries db1 \<and>
      getRegionBoundary db1 =
        Some \<lparr>b_id = Suc (region_boundaries_id_seq db), b_name = in_name boundary,
              b_coordinates = in_coordinates boundary, min_zoom = in_min_zoom boundary,
              max_zoom = in_max_zoom boundary\<rparr>) \<and>
   (db_setRegionBoundary boundary db = (Inr rows, db1) \<and>
    db_setRegionBoundary boundary2 db1 = (Inr rows2, db2) \<longrightarrow>
      tbl_region_boundaries db2 =
        [\<lparr>b_id = Suc (Suc (region_boundaries_id_seq db)), b_name = in_name boundary2,
          b_coordinates = in_coordinates boundary2, min_zoom = in_min_zoom boundary2,
          max_zoom = in_max_zoom boundary2\<rparr>]) \<and>
   (reply_status (fst (PUT_boundary (Inr data) db)) = 200 \<longrightarrow>
      tbl_region_boundaries (snd (PUT_boundary (Inr data) db)) =
        [\<lparr>b_id = Suc (region_boundaries_id_seq db), b_name = field data ''name'',
          b_coordinates = field data ''coordinates'',
          min_zoom = js_or (field data ''minZoom'') (JNum 5),
          max_zoom = js_or (field data ''maxZoom'') (JNum 18)\<rparr>])"
proof -
  have one: "\<And>b d rs d'. db_setRegionBoundary b d = (Inr rs, d') \<Longrightarrow>
      region_boundaries_id_seq d' = Suc (region_boundaries_id_seq d)"
    by (auto simp: db_setRegionBoundary_def Let_def split: if_splits)
  have a: "db_setRegionBoundary boundary db = (Inr rows, db1) \<Longrightarrow>
      tbl_region_boundaries db1 =
        [\<lparr>b_id = Suc (region_boundaries_id_seq db), b_name = in_name boundary,
          b_coordinates = in_coordinates boundary, min_zoom = in_min_zoom boundary,
          max_zoom = in_max_zoom boundary\<rparr>] \<and>
      rows = tbl_region_boundaries db1 \<and>
      getRegionBoundary db1 =
        Some \<lparr>b_id = Suc (region_boundaries_id_seq db), b_name = in_name boundary,
              b_coordinates = in_coordinates boundary, min_zoom = in_min_zoom boundary,
              max_zoom = in_max_zoom boundary\<rparr>"
    using db_setRegionBoundary_success [of boundary db rows db1]
    by (simp add: getRegionBoundary_def)
  have b: "db_setRegionBoundary boundary db = (Inr rows, db1) \<Longrightarrow>
      db_setRegionBoundary boundary2 db1 = (Inr rows2, db2) \<Longrightarrow>
      tbl_region_boundaries db2 =
        [\<lparr>b_id = Suc (Suc (region_boundaries_id_seq db)), b_name = in_name boundary2,
          b_coordinates = in_coordinates boundary2, min_zoom = in_min_zoom boundary2,
          max_zoom = in_max_zoom boundary2\<rparr>]"
    using db_setRegionBoundary_success [of boundary2 db1 rows2 db2] one [of boundary db rows db1]
    by simp
  have c: "reply_status (fst (PUT_boundary (Inr data) db)) = 200 \<Longrightarrow>
      tbl_region_boundaries (snd (PUT_boundary (Inr data) db)) =
        [\<lparr>b_id = Suc (region_boundaries_id_seq db), b_name = field data ''name'',
          b_coordinates = field data ''coordinates'',
          min_zoom = js_or (field data ''minZoom'') (JNum 5),
          max_zoom = js_or (field data ''maxZoom'') (JNum 18)\<rparr>]"
    using PUT_boundary_success [of data db] db_setRegionBoundary_success
    by fastforce
  from a b c show ?thesis by blast
qed

theorem setRegionBoundary_single_witness:
  "db_setRegionBoundary
     \<lparr>in_name = JStr ''Mazovia'', in_coordinates = JArr [JArr [JNum 52, JNum 20]],
      in_min_zoom = JNum 7, in_max_zoom = JNum 18\<rparr> seeded_db =
     (Inr [\<lparr>b_id = 2, b_name = JStr ''Mazovia'', b_coordinates = JArr [JArr [JNum 52, JNum 20]],
            min_zoom = JNum 7, max_zoom = JNum 18\<rparr>],
      seeded_db\<lparr>tbl_region_boundaries :=
          [\<lparr>b_id = 2, b_name = JStr ''Mazovia'', b_coordinates = JArr [JArr [JNum 52, JNum 20]],
            min_zoom = JNum 7, max_zoom = JNum 18\<rparr>],
        region_boundaries_id_seq := 2\<rparr>) \<and>
   db_setRegionBoundary
     \<lparr>in_name = JStr ''Silesia'', in_coordinates = JArr [JArr [JNum 50, JNum 19]],
      in_min_zoom = JNum 5, in_max_zoom = JNum 12\<rparr>
     (seeded_db\<lparr>tbl_region_boundaries :=
          [\<lparr>b_id = 2, b_name = JStr ''Mazovia'', b_coordinates = JArr [JArr [JNum 52, JNum 20]],
            min_zoom = JNum 7, max_zoom = JNum 18\<rparr>],
        region_boundaries_id_seq := 2\<rparr>) =
     (Inr [\<lparr>b_id = 3, b_name = JStr ''Silesia'', b_coordinates = JArr [JArr [JNum 50, JNum 19]],
            min_zoom = JNum 5, max_zoom = JNum 12\<rparr>],
      seeded_db\<lparr>tbl_region_boundaries :=
          [\<lparr>b_id = 3, b_name = JStr ''Silesia'', b_coordinates = JArr [JArr [JNum 50, JNum 19]],
            min_zoom = JNum 5, max_zoom = JNum 12\<rparr>],
        region_boundaries_id_seq := 3\<rparr>) \<and>
   reply_status (fst (PUT_boundary
     (Inr (JObj [(''name'', JStr ''Mazovia''), (''coordinates'', JArr [JArr [JNum 52, JNum 20]]),
                 (''minZoom'', JNum 7)])) seeded_db)) = 200 \<and>
   tbl_region_boundaries (snd (PUT_boundary
     (Inr (JObj [(''name'', JStr ''Mazovia''), (''coordinates'', JArr [JArr [JNum 52, JNum 20]]),
                 (''minZoom'', JNum 7)])) seeded_db)) =
     [\<lparr>b_id = 2, b_name = JStr ''Mazovia'', b_coordinates = JArr [JArr [JNum 52, JNum 20]],
       min_zoom = JNum 7, max_zoom = JNum 18\<rparr>]"
proof -
  let ?b1 = "\<lparr>in_name = JStr ''Mazovia'', in_coordinates = JArr [JArr [JNum 52, JNum 20]],
      in_min_zoom = JNum 7, in_max_zoom = JNum 18\<rparr>"
  let ?r1 = "\<lparr>b_id = 2, b_name = JStr ''Mazovia'', b_coordinates = JArr [JArr [JNum 52, JNum 20]],
      min_zoom = JNum 7, max_zoom = JNum 18\<rparr>"
  let ?d1 = "seeded_db\<lparr>tbl_region_boundaries := [?r1], region_boundaries_id_seq := 2\<rparr>"
  let ?b2 = "\<lparr>in_name = JStr ''Silesia'', in_coordinates = JArr [JArr [JNum 50, JNum 19]],
      in_min_zoom = JNum 5, in_max_zoom = JNum 12\<rparr>"
  let ?r2 = "\<lparr>b_id = 3, b_name = JStr ''Silesia'', b_coordinates = JArr [JArr [JNum 50, JNum 19]],
      min_zoom = JNum 5, max_zoom = JNum 12\<rparr>"
  let ?d2 = "seeded_db\<lparr>tbl_region_boundaries := [?r2], region_boundaries_id_seq := 3\<rparr>"
  let ?data = "JObj [(''name'', JStr ''Mazovia''), (''coordinates'', JArr [JArr [JNum 52, JNum 20]]),
                 (''minZoom'', JNum 7)]"
  have s1: "db_setRegionBoundary ?b1 seeded_db = (Inr [?r1], ?d1)"
    by (simp add: db_setRegionBoundary_def is_null_def seeded_db_def Let_def)
  have s2: "db_setRegionBoundary ?b2 ?d1 = (Inr [?r2], ?d2)"
    by (simp add: db_setRegionBoundary_def is_null_def seeded_db_def Let_def)
  have s3: "reply_status (fst (PUT_boundary (Inr ?data) seeded_db)) = 200"
    by (simp add: PUT_boundary_def PUT_boundary_try_def db_setRegionBoundary_def is_null_def
        field_def js_or_def reply_defs Let_def)
  have q: "region_boundaries_id_seq seeded_db = 1"
    by (simp add: seeded_db_def)
  from setRegionBoundary_single [of ?b1 seeded_db "[?r1]" ?d1 ?b2 "[?r2]" ?d2 ?data] s1 s2 s3 q
  show ?thesis
    by (simp add: field_def js_or_def)
qed

subsection \<open>Creating, reading and updating a pin\<close>

lemma filter_none: "\<not> list_ex P xs \<Longrightarrow> filter P xs = []"
  by (simp add: list_ex_iff filter_empty_conv)

lemma filter_updated:
  assumes "\<And>row. P (g row) = P row"
  shows "filter P (map (\<lambda>row. if P row then g row else row) xs) = map g (filter P xs)"
  using assms by (induction xs) auto

lemma getPinById_found:
  "getPinById i db = Inr (Some old) \<Longrightarrow>
   i \<noteq> [] \<and> (\<exists>rest. filter (\<lambda>row. p_id row = JStr i) (tbl_pins db) = old # rest)"
  by (auto simp: getPinById_def split: if_splits list.splits)

lemma found_list_ex: "filter P xs = y # ys \<Longrightarrow> list_ex P xs"
  by (metis filter_empty_conv list.distinct(1) list_ex_iff)

text \<open>
  C6, as stated, fails for the empty title: the route stores \<open>data.title || 'Untitled'\<close>.
  The body of a new pin with the title \<open>''\<close>, the position 52.1, 19.0, the main tag
  \<open>health\<close>, no supporting tags and one text block is answered 201, and the pin read
  back has the title \<open>Untitled\<close>, which is not the title of the body.
\<close>

theorem create_then_read_empty_title:
  "field untitled_body ''title'' = JStr '''' \<and>
   fst (POST_pins ''unused'' 5 (Inr untitled_body) seeded_db) =
     \<lparr>reply_status = 201,
      reply_body =
        JObj [(''id'', JStr ''k3j9x0a7''), (''title'', JStr ''Untitled''),
              (''position'', JArr [JNum (521 / 10), JNum 19]), (''mainTag'', JStr ''health''),
              (''supportingTags'', JArr []),
              (''content'', JArr [JObj [(''type'', JStr ''text''),
                                        (''value'', JStr ''Open on weekdays from 8 to 16'')]]),
              (''createdAt'', JDate 5), (''updatedAt'', JDate 5)]\<rparr> \<and>
   GET_pin ''k3j9x0a7'' (snd (POST_pins ''unused'' 5 (Inr untitled_body) seeded_db)) =
     \<lparr>reply_status = 200,
      reply_body =
        JObj [(''id'', JStr ''k3j9x0a7''), (''title'', JStr ''Untitled''),
              (''position'', JArr [JNum (521 / 10), JNum 19]), (''mainTag'', JStr ''health''),
              (''supportingTags'', JArr []),
              (''content'', JArr [JObj [(''type'', JStr ''text''),
                                        (''value'', JStr ''Open on weekdays from 8 to 16'')]]),
              (''createdAt'', JDate 5), (''updatedAt'', JDate 5)]\<rparr> \<and>
   field (reply_body
      (GET_pin ''k3j9x0a7'' (snd (POST_pins ''unused'' 5 (Inr untitled_body) seeded_db))))
     ''title'' \<noteq> field untitled_body ''title''"
  by (simp add: POST_pins_defs GET_pin_def GET_pin_try_def getPinById_def createPin_def
      select_supporting_tags_def untitled_body_def field_def js_or_def is_null_def index_def
      seeded_db_def pin_reply_body_def reply_defs Let_def)

text \<open>
  C6, amended. A POST to /api/pins whose body has a title that is a string, the
  position 52.1, 19.0, the main tag \<open>health\<close>, an empty list of supporting tags and
  a content of one block, under an id (the body's, or the generated one when the body
  has none) that no stored pin has, is answered 201 with that position, main tag and
  content, with the title of the body when it is not empty and the title
  \<open>Untitled\<close> when it is, and with \<open>updatedAt\<close> equal to \<open>createdAt\<close>, both the
  time of the insertion. A GET of /api/pins/{id} on the database the POST leaves is
  answered 200 with the same id, title, position, main tag, content and timestamps
  as the reply to the POST, and with the supporting-tag rows stored under the id.
\<close>

theorem create_then_read:
  assumes "field data ''title'' = JStr t"
    and "field data ''position'' = JArr [JNum (521 / 10), JNum 19]"
    and "field data ''mainTag'' = JStr ''health''"
    and "field data ''supportingTags'' = JArr []"
    and "field data ''content'' = JArr [block]"
    and "js_or (field data ''id'') (JStr gen) = JStr i" and "i \<noteq> []"
    and "\<not> list_ex (\<lambda>row. p_id row = JStr i) (tbl_pins db)"
  shows "fst (POST_pins gen now (Inr data) db) =
           \<lparr>reply_status = 201,
            reply_body =
              JObj [(''id'', JStr i), (''title'', JStr (if t = [] then ''Untitled'' else t)),
                    (''position'', JArr [JNum (521 / 10), JNum 19]),
                    (''mainTag'', JStr ''health''), (''supportingTags'', JArr []),
                    (''content'', JArr [block]), (''createdAt'', JDate now),
                    (''updatedAt'', JDate now)]\<rparr> \<and>
         GET_pin i (snd (POST_pins gen now (Inr data) db)) =
           \<lparr>reply_status = 200,
            reply_body =
              JObj [(''id'', JStr i), (''title'', JStr (if t = [] then ''Untitled'' else t)),
                    (''position'', JArr [JNum (521 / 10), JNum 19]),
                    (''mainTag'', JStr ''health''),
                    (''supportingTags'', JArr (select_supporting_tags (JStr i) db)),
                    (''content'', JArr [block]), (''createdAt'', JDate now),
                    (''updatedAt'', JDate now)]\<rparr> \<and>
         tbl_pins (snd (POST_pins gen now (Inr data) db)) =
           tbl_pins db @
           [\<lparr>p_id = JStr i, p_title = JStr (if t = [] then ''Untitled'' else t),
             position_lat = JNum (521 / 10), position_lng = JNum 19,
             main_tag = JStr ''health'', p_content = JArr [block],
             created_at = now, updated_at = now\<rparr>]"
proof -
  let ?t = "if t = [] then ''Untitled'' else t"
  let ?row = "\<lparr>p_id = JStr i, p_title = JStr ?t, position_lat = JNum (521 / 10),
      position_lng = JNum 19, main_tag = JStr ''health'', p_content = JArr [block],
      created_at = now, updated_at = now\<rparr>"
  have nn: "data \<noteq> JNull"
    using assms(1) by (auto simp: field_def)
  have input: "POST_pins_input gen data =
      \<lparr>in_id = JStr i, in_title = JStr ?t, in_position_lat = JNum (521 / 10),
       in_position_lng = JNum 19, in_main_tag = JStr ''health'', in_content = JArr [block]\<rparr>"
    using assms by (simp add: POST_pins_input_def POST_pins_position_def js_or_def index_def)
  have created: "createPin now (POST_pins_input gen data) db =
      (Inr [?row], db\<lparr>tbl_pins := tbl_pins db @ [?row]\<rparr>)"
    using assms(7,8) by (simp add: input createPin_def is_null_def Let_def)
  have post: "POST_pins gen now (Inr data) db =
      (json_status (pin_reply_body ?row (JArr [])) 201, db\<lparr>tbl_pins := tbl_pins db @ [?row]\<rparr>)"
    using nn assms(4)
    by (simp add: POST_pins_def POST_pins_try_def created POST_pins_supporting_def
        POST_pins_reply_def)
  have found: "getPinById i (db\<lparr>tbl_pins := tbl_pins db @ [?row]\<rparr>) = Inr (Some ?row)"
    using assms(7) filter_none [OF assms(8)] by (simp add: getPinById_def)
  have get: "GET_pin i (db\<lparr>tbl_pins := tbl_pins db @ [?row]\<rparr>) =
      json_reply (pin_reply_body ?row (JArr (select_supporting_tags (JStr i) db)))"
    using assms(7) by (simp add: GET_pin_def GET_pin_try_def found select_supporting_tags_def)
  show ?thesis
    by (simp add: post get pin_reply_body_def reply_defs)
qed

theorem create_then_read_witness:
  "field clinic_body ''title'' = JStr ''Clinic opening hours'' \<and>
   field clinic_body ''position'' = JArr [JNum (521 / 10), JNum 19] \<and>
   field clinic_body ''mainTag'' = JStr ''health'' \<and>
   field clinic_body ''supportingTags'' = JArr [] \<and>
   field clinic_body ''content'' =
     JArr [JObj [(''type'', JStr ''text''), (''value'', JStr ''Open on weekdays from 8 to 16'')]] \<and>
   js_or (field clinic_body ''id'') (JStr ''unused'') = JStr ''k3j9x0a7'' \<and>
   ''k3j9x0a7'' \<noteq> [] \<and>
   \<not> list_ex (\<lambda>row. p_id row = JStr ''k3j9x0a7'') (tbl_pins seeded_db) \<and>
   fst (POST_pins ''unused'' 5 (Inr clinic_body) seeded_db) =
     \<lparr>reply_status = 201,
      reply_body =
        JObj [(''id'', JStr ''k3j9x0a7''), (''title'', JStr ''Clinic opening hours''),
              (''position'', JArr [JNum (521 / 10), JNum 19]), (''mainTag'', JStr ''health''),
              (''supportingTags'', JArr []),
              (''content'', JArr [JObj [(''type'', JStr ''text''),
                                        (''value'', JStr ''Open on weekdays from 8 to 16'')]]),
              (''createdAt'', JDate 5), (''updatedAt'', JDate 5)]\<rparr> \<and>
   GET_pin ''k3j9x0a7'' (snd (POST_pins ''unused'' 5 (Inr clinic_body) seeded_db)) =
     \<lparr>reply_status = 200,
      reply_body =
        JObj [(''id'', JStr ''k3j9x0a7''), (''title'', JStr ''Clinic opening hours''),
              (''position'', JArr [JNum (521 / 10), JNum 19]), (''mainTag'', JStr ''health''),
              (''supportingTags'', JArr []),
              (''content'', JArr [JObj [(''type'', JStr ''text''),
                                        (''value'', JStr ''Open on weekdays from 8 to 16'')]]),
              (''createdAt'', JDate 5), (''updatedAt'', JDate 5)]\<rparr>"
proof -
  have h: "field clinic_body ''title'' = JStr ''Clinic opening hours''"
    "field clinic_body ''position'' = JArr [JNum (521 / 10), JNum 19]"
    "field clinic_body ''mainTag'' = JStr ''health''"
    "field clinic_body ''supportingTags'' = JArr []"
    "field clinic_body ''content'' =
       JArr [JObj [(''type'', JStr ''text''), (''value'', JStr ''Open on weekdays from 8 to 16'')]]"
    "js_or (field clinic_body ''id'') (JStr ''unused'') = JStr ''k3j9x0a7''"
    "''k3j9x0a7'' \<noteq> []"
    "\<not> list_ex (\<lambda>row. p_id row = JStr ''k3j9x0a7'') (tbl_pins seeded_db)"
    by (simp_all add: clinic_body_def field_def js_or_def seeded_db_def)
  have s: "select_supporting_tags (JStr ''k3j9x0a7'') seeded_db = []"
    by (simp add: select_supporting_tags_def seeded_db_def)
  from create_then_read [OF h, of 5] h s show ?thesis
    by simp
qed

text \<open>
  The timestamps of the pins table: every write of the data layer keeps the rows
  ordered in time, as long as the clock that \<open>NOW()\<close> reads does not go back from
  one write to the next.
\<close>

lemma timestamps_ordered_mono:
  "timestamps_ordered c db \<Longrightarrow> c \<le> d \<Longrightarrow> timestamps_ordered d db"
  by (auto simp: timestamps_ordered_def list_all_iff)

lemma createPin_ordered:
  "timestamps_ordered c db \<Longrightarrow> c \<le> now \<Longrightarrow>
   timestamps_ordered now (snd (createPin now pin db))"
  by (auto simp: createPin_def timestamps_ordered_def list_all_iff Let_def)

lemma db_updatePin_ordered:
  "timestamps_ordered c db \<Longrightarrow> c \<le> now \<Longrightarrow>
   timestamps_ordered now (snd (db_updatePin now i updates db))"
  by (auto simp: db_updatePin_def update_row_def timestamps_ordered_def list_all_iff Let_def)

lemma db_deletePin_ordered:
  "timestamps_ordered c db \<Longrightarrow> timestamps_ordered c (snd (db_deletePin i db))"
  by (auto simp: db_deletePin_def timestamps_ordered_def list_all_iff)

lemma history_ordered:
  "timestamps_ordered c db \<Longrightarrow> in_order c ws \<Longrightarrow>
   timestamps_ordered (last_time c ws) (history ws db)"
proof (induction ws arbitrary: c db)
  case Nil
  then show ?case by simp
next
  case (Cons w ws)
  show ?case
  proof (cases w)
    case (Created now pin)
    with Cons.prems have "c \<le> now" and "in_order now ws" by simp_all
    with Cons.IH [of now "snd (createPin now pin db)"] createPin_ordered [OF Cons.prems(1)]
    show ?thesis by (simp add: Created)
  next
    case (Updated now i updates)
    with Cons.prems have "c \<le> now" and "in_order now ws" by simp_all
    with Cons.IH [of now "snd (db_updatePin now i updates db)"]
      db_updatePin_ordered [OF Cons.prems(1)]
    show ?thesis by (simp add: Updated)
  next
    case (Deleted i)
    with Cons.prems have "in_order c ws" by simp
    with Cons.IH [of c "snd (db_deletePin i db)"] db_deletePin_ordered [OF Cons.prems(1)]
    show ?thesis by (simp add: Deleted)
  qed
qed

lemma written_pin_ordered:
  assumes "tbl_pins db0 = []" and "in_order c ws"
    and "tbl_pins db = tbl_pins (history ws db0)"
    and "getPinById i db = Inr (Some old)"
  shows "created_at old \<le> updated_at old \<and> updated_at old \<le> last_time c ws"
proof -
  have "timestamps_ordered c db0"
    using assms(1) by (simp add: timestamps_ordered_def)
  then have "timestamps_ordered (last_time c ws) (history ws db0)"
    using assms(2) by (rule history_ordered)
  then have all: "\<forall>row \<in> set (tbl_pins db).
      created_at row \<le> updated_at row \<and> updated_at row \<le> last_time c ws"
    using assms(3) by (simp add: timestamps_ordered_def list_all_iff)
  from getPinById_found [OF assms(4)] obtain rest
    where "filter (\<lambda>row. p_id row = JStr i) (tbl_pins db) = old # rest"
    by blast
  then have "old \<in> set (filter (\<lambda>row. p_id row = JStr i) (tbl_pins db))"
    by simp
  then have "old \<in> set (tbl_pins db)"
    by simp
  with all show ?thesis
    by blast
qed

text \<open>
  C7, as stated, fails when the clock reads earlier at the update than at the
  pin's last write: \<open>updated_at = NOW()\<close> takes whatever the clock gives. The pin
  \<open>pin1\<close> of the seeded database was written by \<open>createPin\<close> at time 1; a PUT of a
  title at time 0 succeeds and leaves \<open>updated_at\<close> at 0, before the old
  \<open>updated_at\<close> and before \<open>created_at\<close>.
\<close>

theorem PUT_pin_clock_back:
  "tbl_pins seeded_db = tbl_pins (history seed_writes unseeded_db) \<and>
   getPinById ''pin1'' seeded_db =
     Inr (Some \<lparr>p_id = JStr ''pin1'', p_title = JStr ''Community Center Renovation'',
          position_lat = JNum (522297 / 10000), position_lng = JNum (210122 / 10000),
          main_tag = JStr ''culture'',
          p_content = JArr [JObj [(''type'', JStr ''image''),
                                  (''value'', JStr ''https://via.placeholder.com/400x300''),
                                  (''title'', JStr ''Community Center'')]],
          created_at = 1, updated_at = 1\<rparr>) \<and>
   fst (PUT_pin 0 ''pin1'' (Inr retitle_body) seeded_db) =
     \<lparr>reply_status = 200,
      reply_body =
        JObj [(''id'', JStr ''pin1''), (''title'', JStr ''Renovated''),
              (''position'', JArr [JNum (522297 / 10000), JNum (210122 / 10000)]),
              (''mainTag'', JStr ''culture''),
              (''supportingTags'', JArr [JStr ''education'', JStr ''community'']),
              (''content'', JArr [JObj [(''type'', JStr ''image''),
                                  (''value'', JStr ''https://via.placeholder.com/400x300''),
                                  (''title'', JStr ''Community Center'')]]),
              (''createdAt'', JDate 1), (''updatedAt'', JDate 0)]\<rparr> \<and>
   getPinById ''pin1'' (snd (PUT_pin 0 ''pin1'' (Inr retitle_body) seeded_db)) =
     Inr (Some \<lparr>p_id = JStr ''pin1'', p_title = JStr ''Renovated'',
          position_lat = JNum (522297 / 10000), position_lng = JNum (210122 / 10000),
          main_tag = JStr ''culture'',
          p_content = JArr [JObj [(''type'', JStr ''image''),
                                  (''value'', JStr ''https://via.placeholder.com/400x300''),
                                  (''title'', JStr ''Community Center'')]],
          created_at = 1, updated_at = 0\<rparr>)"
  by (simp add: PUT_pin_def PUT_pin_try_def PUT_pin_updates_def PUT_pin_supporting_def
      db_updatePin_def update_row_def assign_def no_updates_def sets_null_def is_null_def
      present_def getPinById_def createPin_def select_supporting_tags_def retitle_body_def
      seed_writes_def unseeded_db_def field_def seeded_db_def pin_reply_body_def reply_defs
      Let_def)

text \<open>
  C7, amended. Let the pins table be what a sequence of writes of the data layer
  (\<open>createPin\<close>, \<open>updatePin\<close>, \<open>deletePin\<close>) leaves of the empty table, the clock
  never going back from one write to the next, and let the time of the request be no
  earlier than the last of them. Then for every stored pin, a PUT to /api/pins/{id}
  whose body has a title and nothing else is answered 200: the reply carries the new
  title, and the position, main tag, content, creation time and supporting tags the
  pin had; the stored row is the old one with the new title and with \<open>updated_at\<close>
  the time of the request, the supporting-tag rows are untouched, and the new
  \<open>updated_at\<close> is not before the old one nor before \<open>created_at\<close>.
\<close>

theorem PUT_pin_title_only:
  assumes "tbl_pins db0 = []" and "in_order c ws"
    and "tbl_pins db = tbl_pins (history ws db0)"
    and "last_time c ws \<le> now"
    and "getPinById i db = Inr (Some old)"
    and "db' = snd (PUT_pin now i (Inr (JObj [(''title'', JStr t)])) db)"
  shows "fst (PUT_pin now i (Inr (JObj [(''title'', JStr t)])) db) =
           \<lparr>reply_status = 200,
            reply_body =
              JObj [(''id'', p_id old), (''title'', JStr t),
                    (''position'', JArr [position_lat old, position_lng old]),
                    (''mainTag'', main_tag old),
                    (''supportingTags'', JArr (select_supporting_tags (JStr i) db)),
                    (''content'', p_content old), (''createdAt'', JDate (created_at old)),
                    (''updatedAt'', JDate now)]\<rparr> \<and>
         getPinById i db' = Inr (Some (old\<lparr>p_title := JStr t, updated_at := now\<rparr>)) \<and>
         tbl_pins db' =
           map (\<lambda>row. if p_id row = JStr i then row\<lparr>p_title := JStr t, updated_at := now\<rparr>
                       else row) (tbl_pins db) \<and>
         tbl_pin_supporting_tags db' = tbl_pin_supporting_tags db \<and>
         select_supporting_tags (JStr i) db' = select_supporting_tags (JStr i) db \<and>
         updated_at old \<le> updated_at (old\<lparr>p_title := JStr t, updated_at := now\<rparr>) \<and>
         created_at (old\<lparr>p_title := JStr t, updated_at := now\<rparr>) \<le>
           updated_at (old\<lparr>p_title := JStr t, updated_at := now\<rparr>)"
proof -
  let ?data = "JObj [(''title'', JStr t)]"
  let ?g = "\<lambda>row. row\<lparr>p_title := JStr t, updated_at := now\<rparr>"
  let ?rows = "map (\<lambda>row. if p_id row = JStr i then ?g row else row) (tbl_pins db)"
  from getPinById_found [OF assms(5)] obtain rest where ne: "i \<noteq> []"
    and f: "filter (\<lambda>row. p_id row = JStr i) (tbl_pins db) = old # rest"
    by blast
  have times: "created_at old \<le> updated_at old \<and> updated_at old \<le> now"
    using written_pin_ordered [OF assms(1,2,3,5)] assms(4) by simp
  have u: "PUT_pin_updates ?data =
      \<lparr>set_title = Some (JStr t), set_position_lat = None, set_position_lng = None,
       set_main_tag = None, set_content = None\<rparr>"
    by (simp add: PUT_pin_updates_def field_def present_def)
  have g: "\<And>row. update_row now (PUT_pin_updates ?data) row =
      row\<lparr>p_title := JStr t, updated_at := now\<rparr>"
    by (simp add: u update_row_def assign_def)
  have fr: "filter (\<lambda>row. p_id row = JStr i) ?rows = ?g old # map ?g rest"
    using filter_updated [of "\<lambda>row. p_id row = JStr i" ?g "tbl_pins db"] f by simp
  have upd: "db_updatePin now i (PUT_pin_updates ?data) db =
      (Inr (?g old # map ?g rest), db\<lparr>tbl_pins := ?rows\<rparr>)"
    using ne fr by (simp add: db_updatePin_def g Let_def cong: if_cong)
      (simp add: u no_updates_def sets_null_def is_null_def)
  have put: "PUT_pin now i (Inr ?data) db =
      (json_reply (pin_reply_body (?g old) (JArr (select_supporting_tags (JStr i) db))),
       db\<lparr>tbl_pins := ?rows\<rparr>)"
    using ne assms(5)
    by (simp add: PUT_pin_def PUT_pin_try_def upd PUT_pin_supporting_def field_def
        select_supporting_tags_def)
  have d: "db' = db\<lparr>tbl_pins := ?rows\<rparr>"
    using assms(6) by (simp add: put)
  have again: "getPinById i db' = Inr (Some (?g old))"
    using ne fr by (simp add: d getPinById_def)
  show ?thesis
    using times again
    by (simp add: put d pin_reply_body_def select_supporting_tags_def reply_defs)
qed

theorem PUT_pin_title_only_witness:
  "tbl_pins unseeded_db = [] \<and> in_order 0 seed_writes \<and>
   tbl_pins seeded_db = tbl_pins (history seed_writes unseeded_db) \<and>
   last_time 0 seed_writes \<le> 9 \<and>
   getPinById ''pin1'' seeded_db =
     Inr (Some \<lparr>p_id = JStr ''pin1'', p_title = JStr ''Community Center Renovation'',
          position_lat = JNum (522297 / 10000), position_lng = JNum (210122 / 10000),
          main_tag = JStr ''culture'',
          p_content = JArr [JObj [(''type'', JStr ''image''),
                                  (''value'', JStr ''https://via.placeholder.com/400x300''),
                                  (''title'', JStr ''Community Center'')]],
          created_at = 1, updated_at = 1\<rparr>) \<and>
   fst (PUT_pin 9 ''pin1'' (Inr (JObj [(''title'', JStr ''Renovated'')])) seeded_db) =
     \<lparr>reply_status = 200,
      reply_body =
        JObj [(''id'', JStr ''pin1''), (''title'', JStr ''Renovated''),
              (''position'', JArr [JNum (522297 / 10000), JNum (210122 / 10000)]),
              (''mainTag'', JStr ''culture''),
              (''supportingTags'', JArr [JStr ''education'', JStr ''community'']),
              (''content'', JArr [JObj [(''type'', JStr ''image''),
                                  (''value'', JStr ''https://via.placeholder.com/400x300''),
                                  (''title'', JStr ''Community Center'')]]),
              (''createdAt'', JDate 1), (''updatedAt'', JDate 9)]\<rparr> \<and>
   getPinById ''pin1''
     (snd (PUT_pin 9 ''pin1'' (Inr (JObj [(''title'', JStr ''Renovated'')])) seeded_db)) =
     Inr (Some \<lparr>p_id = JStr ''pin1'', p_title = JStr ''Renovated'',
          position_lat = JNum (522297 / 10000), position_lng = JNum (210122 / 10000),
          main_tag = JStr ''culture'',
          p_content = JArr [JObj [(''type'', JStr ''image''),
                                  (''value'', JStr ''https://via.placeholder.com/400x300''),
                                  (''title'', JStr ''Community Center'')]],
          created_at = 1, updated_at = 9\<rparr>) \<and>
   tbl_pin_supporting_tags
     (snd (PUT_pin 9 ''pin1'' (Inr (JObj [(''title'', JStr ''Renovated'')])) seeded_db)) =
     tbl_pin_supporting_tags seeded_db"
proof -
  let ?old = "\<lparr>p_id = JStr ''pin1'', p_title = JStr ''Community Center Renovation'',
          position_lat = JNum (522297 / 10000), position_lng = JNum (210122 / 10000),
          main_tag = JStr ''culture'',
          p_content = JArr [JObj [(''type'', JStr ''image''),
                                  (''value'', JStr ''https://via.placeholder.com/400x300''),
                                  (''title'', JStr ''Community Center'')]],
          created_at = 1, updated_at = 1\<rparr>"
  have e: "tbl_pins unseeded_db = []"
    by (simp add: unseeded_db_def)
  have o: "in_order 0 seed_writes"
    by (simp add: seed_writes_def)
  have h: "tbl_pins seeded_db = tbl_pins (history seed_writes unseeded_db)"
    by (simp add: seed_writes_def unseeded_db_def seeded_db_def createPin_def is_null_def
        Let_def)
  have l: "last_time 0 seed_writes \<le> 9"
    by (simp add: seed_writes_def)
  have g: "getPinById ''pin1'' seeded_db = Inr (Some ?old)"
    by (simp add: getPinById_def seeded_db_def)
  have s: "select_supporting_tags (JStr ''pin1'') seeded_db = [JStr ''education'', JStr ''community'']"
    by (simp add: select_supporting_tags_def seeded_db_def)
  from PUT_pin_title_only [OF e o h l g refl, of "''Renovated''"] e o h l g s show ?thesis
    by simp
qed

text \<open>
  C10. For every stored pin, a PUT to /api/pins/{id} whose body has none of the
  fields title, position, mainTag and content is answered 500 and leaves the
  database, so the pin row and its supporting-tag rows, as it was. For a body that
  is not \<open>null\<close>, such as an empty object or one with supporting tags only, the
  reply carries the message \<open>Updates are required\<close> with which \<open>updatePin\<close> rejects
  an empty update set.
\<close>

theorem PUT_pin_no_fields:
  assumes "getPinById i db = Inr (Some old)"
    and "field data ''title'' = JUndefined" and "field data ''position'' = JUndefined"
    and "field data ''mainTag'' = JUndefined" and "field data ''content'' = JUndefined"
  shows "reply_status (fst (PUT_pin now i (Inr data) db)) = 500 \<and>
         snd (PUT_pin now i (Inr data) db) = db \<and>
         (data \<noteq> JNull \<longrightarrow>
            fst (PUT_pin now i (Inr data) db) =
              json_status (error_body ''Updates are required'') 500)"
proof -
  from getPinById_found [OF assms(1)] have ne: "i \<noteq> []"
    by blast
  have u: "no_updates (PUT_pin_updates data)"
    using assms by (simp add: PUT_pin_updates_def no_updates_def present_def)
  have "db_updatePin now i (PUT_pin_updates data) db = (Inl (ErrorObj ''Updates are required''), db)"
    using ne u by (simp add: db_updatePin_def)
  then show ?thesis
    using ne assms(1)
    by (simp add: PUT_pin_def PUT_pin_try_def reply_defs toErrorMessage_def)
qed

theorem PUT_pin_no_fields_witness:
  "getPinById ''pin3'' seeded_db =
     Inr (Some \<lparr>p_id = JStr ''pin3'', p_title = JStr ''Healthcare Clinic Expansion'',
          position_lat = JNum (511079 / 10000), position_lng = JNum (170385 / 10000),
          main_tag = JStr ''health'',
          p_content = JArr [JObj [(''type'', JStr ''pdf''),
                                  (''value'', JStr ''https://example.com/sample.pdf''),
                                  (''title'', JStr ''Project Documentation'')]],
          created_at = 1, updated_at = 1\<rparr>) \<and>
   JObj [] \<noteq> JNull \<and>
   field (JObj [(''supportingTags'', JArr [JStr ''culture''])]) ''title'' = JUndefined \<and>
   reply_status (fst (PUT_pin 9 ''pin3'' (Inr JNull) seeded_db)) = 500 \<and>
   snd (PUT_pin 9 ''pin3'' (Inr JNull) seeded_db) = seeded_db \<and>
   PUT_pin 9 ''pin3'' (Inr (JObj [])) seeded_db =
     (json_status (error_body ''Updates are required'') 500, seeded_db) \<and>
   PUT_pin 9 ''pin3'' (Inr (JObj [(''supportingTags'', JArr [JStr ''culture''])])) seeded_db =
     (json_status (error_body ''Updates are required'') 500, seeded_db)"
proof -
  have g: "getPinById ''pin3'' seeded_db =
     Inr (Some \<lparr>p_id = JStr ''pin3'', p_title = JStr ''Healthcare Clinic Expansion'',
          position_lat = JNum (511079 / 10000), position_lng = JNum (170385 / 10000),
          main_tag = JStr ''health'',
          p_content = JArr [JObj [(''type'', JStr ''pdf''),
                                  (''value'', JStr ''https://example.com/sample.pdf''),
                                  (''title'', JStr ''Project Documentation'')]],
          created_at = 1, updated_at = 1\<rparr>)"
    by (simp add: getPinById_def seeded_db_def)
  from PUT_pin_no_fields [OF g, of "JObj []" 9]
    PUT_pin_no_fields [OF g, of "JObj [(''supportingTags'', JArr [JStr ''culture''])]" 9]
    PUT_pin_no_fields [OF g, of JNull 9] g
  show ?thesis
    by (simp add: field_def prod_eq_iff)
qed

subsection \<open>Further properties\<close>

lemma find_filter_other:
  "j \<noteq> i \<Longrightarrow>
   List.find (\<lambda>x. f x = j) (filter (\<lambda>x. f x \<noteq> i) xs) = List.find (\<lambda>x. f x = j) xs"
  by (induction xs) auto

lemma truthy_js_or: "truthy b \<Longrightarrow> truthy (js_or a b)"
  by (simp add: js_or_def)

text \<open>
  X1. Deleting a pin with a non-empty id, when the remote call succeeds, removes
  the pins of that id from the mirror; if that id was the selected one the selection
  becomes absent, and otherwise the selection and the selected pin are as before.
  The error is cleared and the loading flag is off.
\<close>

theorem deletePin_clears_selection:
  assumes "i \<noteq> []" and "f = Resolved response" and "ok response"
    and "s' = snd (deletePin True i f s)"
  shows "pins s' = filter (\<lambda>pin. pinId pin \<noteq> i) (pins s) \<and>
         (selectedPinId s = Some i \<longrightarrow> selectedPinId s' = None) \<and>
         (selectedPinId s \<noteq> Some i \<longrightarrow> selectedPinId s' = selectedPinId s) \<and>
         selectedPin (pins s') (selectedPinId s') =
           (if selectedPinId s = Some i then None else selectedPin (pins s) (selectedPinId s)) \<and>
         pinsError s' = None \<and> \<not> isLoadingPins s'"
proof -
  have d: "s' = (if selectedPinId s = Some i
      then s\<lparr>isLoadingPins := False, pinsError := None,
             pins := filter (\<lambda>pin. pinId pin \<noteq> i) (pins s), selectedPinId := None\<rparr>
      else s\<lparr>isLoadingPins := False, pinsError := None,
             pins := filter (\<lambda>pin. pinId pin \<noteq> i) (pins s)\<rparr>)"
    using assms by (simp add: deletePin_def deletePin_try_def client_defs Let_def)
  show ?thesis
    by (auto simp: d selectedPin_def find_filter_other split: option.splits)
qed

theorem deletePin_clears_selection_witness:
  "''pin1'' \<noteq> [] \<and> ok \<lparr>status = 200, statusText = ''OK'', json = Inr ()\<rparr> \<and>
   pins (snd (deletePin True ''pin1'' (answer_200 ())
                (loaded_store\<lparr>selectedPinId := Some ''pin1''\<rparr>))) = [pin3] \<and>
   selectedPinId (snd (deletePin True ''pin1'' (answer_200 ())
                (loaded_store\<lparr>selectedPinId := Some ''pin1''\<rparr>))) = None"
  using deletePin_clears_selection [of "''pin1''" "answer_200 ()"
      "\<lparr>status = 200, statusText = ''OK'', json = Inr ()\<rparr>" _
      "loaded_store\<lparr>selectedPinId := Some ''pin1''\<rparr>", OF _ _ _ refl]
  by (simp add: answer_200_def ok_def loaded_store_def pin1_def pin3_def)

text \<open>
  X2. A POST to /api/tags whose name is the name of a stored tag is answered 201
  on every database, never 409: the rows of that name take the posted color (the
  default \<open>#cccccc\<close> when the body has none), and no row is added or removed.
\<close>

theorem POST_tags_never_conflict:
  assumes "field data ''name'' = JStr n" and "n \<noteq> []" and "gen \<noteq> []"
    and "list_ex (\<lambda>row. t_name row = JStr n) (tbl_tags db)"
  shows "reply_status (fst (POST_tags gen (Inr data) db)) = 201 \<and>
         tbl_tags (snd (POST_tags gen (Inr data) db)) =
           map (\<lambda>row. if t_name row = JStr n
                        then row\<lparr>t_color := js_or (field data ''color'') (JStr ''#cccccc'')\<rparr>
                        else row) (tbl_tags db)"
proof -
  let ?tag = "\<lparr>t_id = js_or (field data ''id'') (JStr gen), t_name = JStr n,
      t_color = js_or (field data ''color'') (JStr ''#cccccc'')\<rparr>"
  let ?rows = "map (\<lambda>row. if t_name row = JStr n then row\<lparr>t_color := t_color ?tag\<rparr> else row)
      (tbl_tags db)"
  have nn: "data \<noteq> JNull"
    using assms(1) by (auto simp: field_def)
  have ti: "truthy (js_or (field data ''id'') (JStr gen))"
    and tc: "truthy (js_or (field data ''color'') (JStr ''#cccccc''))"
    using assms(3) by (simp_all add: truthy_js_or)
  have nc: "\<not> is_null (js_or (field data ''color'') (JStr ''#cccccc''))"
    using tc by (auto simp: is_null_def)
  have "filter (\<lambda>row. t_name row = JStr n) (tbl_tags db) \<noteq> []"
    using assms(4) by (simp add: list_ex_iff filter_empty_conv)
  then have ne: "filter (\<lambda>row. t_name row = JStr n) ?rows \<noteq> []"
    using filter_updated [of "\<lambda>row. t_name row = JStr n"
        "\<lambda>row. row\<lparr>t_color := t_color ?tag\<rparr>" "tbl_tags db"]
    by simp
  have created: "createTag ?tag db = (Inr (filter (\<lambda>row. t_name row = JStr n) ?rows),
      db\<lparr>tbl_tags := ?rows\<rparr>)"
    using ti nc assms(2,4) by (simp add: createTag_def Let_def)
  obtain r rs where rows: "filter (\<lambda>row. t_name row = JStr n) ?rows = r # rs"
    using ne by (cases "filter (\<lambda>row. t_name row = JStr n) ?rows") auto
  have nm: "js_or (field data ''name'') (JStr []) = JStr n"
    using assms(1,2) by (simp add: js_or_def)
  show ?thesis
    using nn assms(2) tc
    by (simp add: POST_tags_def POST_tags_try_def nm created rows reply_defs Let_def)
qed

theorem POST_tags_never_conflict_witness:
  "field (JObj [(''name'', JStr ''health'')]) ''name'' = JStr ''health'' \<and>
   ''health'' \<noteq> [] \<and> ''abc123'' \<noteq> [] \<and>
   list_ex (\<lambda>row. t_name row = JStr ''health'') (tbl_tags seeded_db) \<and>
   reply_status (fst (POST_tags ''abc123'' (Inr (JObj [(''name'', JStr ''health'')])) seeded_db)) =
     201 \<and>
   map t_color (tbl_tags (snd (POST_tags ''abc123'' (Inr (JObj [(''name'', JStr ''health'')]))
     seeded_db))) =
     [JStr ''#FF5733'', JStr ''#33FF57'', JStr ''#cccccc'', JStr ''#F033FF'', JStr ''#FF9933'',
      JStr ''#33FFF9'']"
proof -
  have h: "field (JObj [(''name'', JStr ''health'')]) ''name'' = JStr ''health''"
    "''health'' \<noteq> []" "''abc123'' \<noteq> []"
    "list_ex (\<lambda>row. t_name row = JStr ''health'') (tbl_tags seeded_db)"
    by (simp_all add: field_def seeded_db_def)
  from POST_tags_never_conflict [OF h] h show ?thesis
    by (simp add: field_def js_or_def seeded_db_def)
qed

text \<open>
  A supporting tag that is the empty string stops POST /api/pins after the pin is
  written: \<open>addPinSupportingTag\<close> throws \<open>Tag name is required\<close>, the route
  answers 500, and the row of the pin stays in the table.
\<close>

theorem POST_pins_empty_supporting_tag:
  "fst (POST_pins ''new1'' 7
          (Inr (JObj [(''title'', JStr ''Clinic''), (''supportingTags'', JArr [JStr ''''])]))
          seeded_db) =
     \<lparr>reply_status = 500, reply_body = JObj [(''error'', JStr ''Tag name is required'')]\<rparr> \<and>
   tbl_pins (snd (POST_pins ''new1'' 7
          (Inr (JObj [(''title'', JStr ''Clinic''), (''supportingTags'', JArr [JStr ''''])]))
          seeded_db)) =
     tbl_pins seeded_db @
     [\<lparr>p_id = JStr ''new1'', p_title = JStr ''Clinic'', position_lat = JNum 0,
       position_lng = JNum 0, main_tag = JStr [], p_content = JArr [],
       created_at = 7, updated_at = 7\<rparr>]"
  by (simp add: POST_pins_defs createPin_def addPinSupportingTag_def field_def js_or_def
      is_null_def index_def seeded_db_def reply_defs toErrorMessage_def Let_def)

end
